theory Spec2Isabelle
  imports Main "HOL-Library.Char_ord" "HOL-Library.List_Lexorder"
begin

section \<open>JavaScript values that pass through JSON\<close>

text \<open>
  The storage managers keep every collection as JSON text in \<open>localStorage\<close>.
  \<open>json\<close> is the set of values \<open>JSON.parse\<close> can return; an object is the list of its
  properties in insertion order. Numbers are restricted to integers. The value
  \<open>undefined\<close> is not JSON: a property read yields a \<open>json option\<close>, and \<open>None\<close> is
  \<open>undefined\<close>.
\<close>

datatype json =
    JNull
  | JBool bool
  | JNum int
  | JStr string
  | JArr "json list"
  | JObj "(string \<times> json) list"

type_synonym jsval = "json option"

type_synonym obj = "(string \<times> json) list"

datatype error = SyntaxError | TypeError | ApiError | DataError | RequestError

text \<open>
  A \<open>localStorage\<close> item is a string. \<open>Serialized v\<close> is the text \<open>JSON.stringify(v)\<close>,
  which \<open>JSON.parse\<close> maps back to \<open>v\<close>; \<open>Garbage t\<close> is a text \<open>t\<close> that \<open>JSON.parse\<close>
  rejects with a SyntaxError (the empty string is one of them).
\<close>

datatype 'a stored = Serialized 'a | Garbage string

text \<open>The idiom \<open>stored ? JSON.parse(stored) : dflt\<close>: \<open>null\<close> and the empty string are falsy.\<close>

definition parse_or :: "'a stored option \<Rightarrow> 'a \<Rightarrow> error + 'a" where
  "parse_or item dflt =
     (case item of
        None \<Rightarrow> Inr dflt
      | Some (Serialized v) \<Rightarrow> Inr v
      | Some (Garbage t) \<Rightarrow> if t = [] then Inr dflt else Inl SyntaxError)"

text \<open>JavaScript truthiness.\<close>

fun truthy :: "jsval \<Rightarrow> bool" where
  "truthy None = False"
| "truthy (Some JNull) = False"
| "truthy (Some (JBool b)) = b"
| "truthy (Some (JNum n)) = (n \<noteq> 0)"
| "truthy (Some (JStr s)) = (s \<noteq> [])"
| "truthy (Some (JArr xs)) = True"
| "truthy (Some (JObj kvs)) = True"

text \<open>
  Strict equality \<open>===\<close>: by value on primitives, by reference on arrays and objects.
  Every array or object compared here was freshly built by \<open>JSON.parse\<close>, so two of
  them are never the same reference.
\<close>

fun strict_eq :: "jsval \<Rightarrow> jsval \<Rightarrow> bool" where
  "strict_eq None None = True"
| "strict_eq (Some (JArr xs)) w = False"
| "strict_eq (Some (JObj kvs)) w = False"
| "strict_eq (Some a) (Some b) = (a = b)"
| "strict_eq v w = False"

text \<open>
  The property read \<open>v.k\<close> for the names used below (\<open>id\<close>, \<open>tasks\<close>, \<open>settings\<close>,
  \<open>statistics\<close>, \<open>expense\<close>, \<open>title\<close>, \<open>category\<close>, \<open>amount\<close>; none of them is
  \<open>length\<close> or an index): a TypeError on \<open>null\<close>, the property of an object,
  \<open>undefined\<close> on anything else.
\<close>

fun get_prop :: "string \<Rightarrow> json \<Rightarrow> error + jsval" where
  "get_prop k JNull = Inl TypeError"
| "get_prop k (JObj kvs) = Inr (map_of kvs k)"
| "get_prop k v = Inr None"

text \<open>
  \<open>{...o, k: v}\<close>: the property keeps its place when \<open>o\<close> has it already and comes
  last otherwise.
\<close>

fun set_prop :: "string \<Rightarrow> json \<Rightarrow> obj \<Rightarrow> obj" where
  "set_prop k v [] = [(k, v)]"
| "set_prop k v (p # ps) = (if fst p = k then (k, v) # ps else p # set_prop k v ps)"

text \<open>Decimal rendering of a non-negative integer, as \<open>'temp_' + Date.now()\<close> needs it.\<close>

fun decimal :: "nat \<Rightarrow> string" where
  "decimal n =
     (if n < 10 then [''0123456789'' ! n]
      else decimal (n div 10) @ [''0123456789'' ! (n mod 10)])"

declare decimal.simps [simp del]

section \<open>DatabaseStorageManager: state\<close>

text \<open>
  The options object handed to \<open>fetch\<close>. \<open>body\<close> is the text \<open>JSON.stringify(x)\<close>,
  kept as the value \<open>x\<close> it serialises. A field that is \<open>None\<close> is absent.
\<close>

record options =
  http_method :: "string option"
  headers :: "(string \<times> string) list option"
  body :: "json option"

definition no_options :: options where
  "no_options = \<lparr>http_method = None, headers = None, body = None\<rparr>"

record operation =
  endpoint :: string
  options :: options
  timestamp :: nat

text \<open>
  The five items named by \<open>localStorageKeys\<close>. The item \<open>PENDING_OPS\<close> is only ever
  written by \<open>addPendingOperation\<close>, so when it parses it is a list of operations.
\<close>

record local_storage =
  TASKS :: "json stored option"
  SETTINGS :: "json stored option"
  STATISTICS :: "json stored option"
  EXPENSES :: "json stored option"
  PENDING_OPS :: "operation list stored option"

record dsm =
  isOnline :: bool
  pendingOperations :: "operation list"
  localStorage :: local_storage

text \<open>One reading of the clock: \<open>Date.now()\<close> and \<open>new Date().toISOString()\<close>.\<close>

record clock =
  nowMs :: nat
  nowISO :: string

section \<open>DatabaseStorageManager: the pending-operation queue and the remote client\<close>

definition addPendingOperation :: "clock \<Rightarrow> string \<Rightarrow> options \<Rightarrow> dsm \<Rightarrow> dsm" where
  "addPendingOperation clk ep opts s =
     (let q = pendingOperations s @ [\<lparr>endpoint = ep, options = opts, timestamp = nowMs clk\<rparr>]
      in s\<lparr>pendingOperations := q,
            localStorage := (localStorage s)\<lparr>PENDING_OPS := Some (Serialized q)\<rparr>\<rparr>)"

text \<open>
  \<open>resp\<close> is what the network does with the request: \<open>Some j\<close> when the response is ok
  and its body is the JSON \<open>j\<close>, \<open>None\<close> when \<open>fetch\<close> rejects, the status is not ok
  or the body does not parse. In the \<open>catch\<close> block \<open>options.method !== 'GET'\<close> also
  holds when \<open>options\<close> has no \<open>method\<close>.
\<close>

definition makeApiRequest ::
  "json option \<Rightarrow> clock \<Rightarrow> string \<Rightarrow> options \<Rightarrow> dsm \<Rightarrow> (error + json) \<times> dsm" where
  "makeApiRequest resp clk ep opts s =
     (case resp of
        Some j \<Rightarrow> (Inr j, s)
      | None \<Rightarrow>
          (Inl ApiError,
           if isOnline s \<and> http_method opts \<noteq> Some ''GET''
           then addPendingOperation clk ep opts s else s))"

text \<open>
  The loop \<open>for (const operation of this.pendingOperations)\<close> of
  \<open>syncPendingOperations\<close>. The array iterator reads \<open>this.pendingOperations[i]\<close> for
  \<open>i = 0, 1, ...\<close> while \<open>i\<close> is below the current length, so an entry pushed during
  the pass is visited too and the loop need not end: not returning is \<open>None\<close>.
  \<open>net i\<close> is what the network does with the \<open>i\<close>-th request of the pass. The inner
  \<open>try/catch\<close> logs a failed request and goes on. \<open>applied\<close> collects the operations
  the remote accepted, in the order it received them.
\<close>

partial_function (option) sync_loop ::
  "(nat \<Rightarrow> json option) \<Rightarrow> clock \<Rightarrow> nat \<Rightarrow> dsm \<Rightarrow> operation list \<Rightarrow> (dsm \<times> operation list) option"
where
  "sync_loop net clk i s applied =
     (if i < length (pendingOperations s)
      then (let operation = pendingOperations s ! i;
                r = makeApiRequest (net i) clk (endpoint operation) (options operation) s
            in sync_loop net clk (Suc i) (snd r)
                 (case fst r of Inr j \<Rightarrow> applied @ [operation] | Inl e \<Rightarrow> applied))
      else Some (s, applied))"

text \<open>
  \<open>syncPendingOperations\<close>: a SyntaxError of \<open>JSON.parse\<close> reaches the outer \<open>catch\<close>,
  which logs it and leaves the state as it is. After the loop the queue and its item
  are cleared, whatever the requests did.
\<close>

definition syncPendingOperations ::
  "(nat \<Rightarrow> json option) \<Rightarrow> clock \<Rightarrow> dsm \<Rightarrow> (dsm \<times> operation list) option" where
  "syncPendingOperations net clk s =
     (case parse_or (PENDING_OPS (localStorage s)) (pendingOperations s) of
        Inl e \<Rightarrow> Some (s, [])
      | Inr q \<Rightarrow>
          (let s1 = s\<lparr>pendingOperations := q\<rparr>
           in if length q = 0 then Some (s1, [])
              else (case sync_loop net clk 0 s1 [] of
                      None \<Rightarrow> None
                    | Some (s2, applied) \<Rightarrow>
                        Some (s2\<lparr>pendingOperations := [],
                                 localStorage := (localStorage s2)\<lparr>PENDING_OPS := None\<rparr>\<rparr>,
                              applied))))"

text \<open>
  The drain as the specification words it, for comparison with the code: replay in
  insertion order, remove an entry that succeeded, stop at the first failure and keep
  the failed entry and all later ones. The result is the queue that remains and the
  operations the remote accepted.
\<close>

fun drain_spec :: "(nat \<Rightarrow> json option) \<Rightarrow> nat \<Rightarrow> operation list \<Rightarrow> operation list \<times> operation list" where
  "drain_spec net i [] = ([], [])"
| "drain_spec net i (operation # rest) =
     (case net i of
        None \<Rightarrow> (operation # rest, [])
      | Some j \<Rightarrow> (fst (drain_spec net (Suc i) rest), operation # snd (drain_spec net (Suc i) rest)))"

section \<open>DatabaseStorageManager: the localStorage fallback\<close>

definition getTasksFromLocalStorage :: "dsm \<Rightarrow> json" where
  "getTasksFromLocalStorage s =
     (case parse_or (TASKS (localStorage s)) (JArr []) of Inl e \<Rightarrow> JArr [] | Inr v \<Rightarrow> v)"

definition getSettingsFromLocalStorage :: "dsm \<Rightarrow> json" where
  "getSettingsFromLocalStorage s =
     (case parse_or (SETTINGS (localStorage s)) (JObj []) of Inl e \<Rightarrow> JObj [] | Inr v \<Rightarrow> v)"

definition getStatisticsFromLocalStorage :: "dsm \<Rightarrow> json" where
  "getStatisticsFromLocalStorage s =
     (case parse_or (STATISTICS (localStorage s)) (JArr []) of Inl e \<Rightarrow> JArr [] | Inr v \<Rightarrow> v)"

definition getExpensesFromLocalStorage :: "dsm \<Rightarrow> json" where
  "getExpensesFromLocalStorage s =
     (case parse_or (EXPENSES (localStorage s)) (JArr []) of Inl e \<Rightarrow> JArr [] | Inr v \<Rightarrow> v)"

text \<open>
  \<open>tasks.findIndex(t => t.id === v)\<close> on the elements of an array: the first index
  whose element has that id. Reading \<open>t.id\<close> of a \<open>null\<close> element is a TypeError.
\<close>

fun findIndex_id :: "jsval \<Rightarrow> json list \<Rightarrow> error + nat option" where
  "findIndex_id v [] = Inr None"
| "findIndex_id v (t # ts) =
     (case get_prop ''id'' t of
        Inl e \<Rightarrow> Inl e
      | Inr w \<Rightarrow>
          if strict_eq w v then Inr (Some 0)
          else (case findIndex_id v ts of
                  Inl e \<Rightarrow> Inl e
                | Inr None \<Rightarrow> Inr None
                | Inr (Some i) \<Rightarrow> Inr (Some (Suc i))))"

text \<open>\<open>tasks.filter(task => task.id !== v)\<close> on the elements of an array.\<close>

fun filter_not_id :: "jsval \<Rightarrow> json list \<Rightarrow> error + json list" where
  "filter_not_id v [] = Inr []"
| "filter_not_id v (t # ts) =
     (case get_prop ''id'' t of
        Inl e \<Rightarrow> Inl e
      | Inr w \<Rightarrow>
          (case filter_not_id v ts of
             Inl e \<Rightarrow> Inl e
           | Inr r \<Rightarrow> Inr (if \<not> strict_eq w v then t # r else r)))"

text \<open>
  \<open>saveTaskToLocalStorage\<close>. A value of \<open>getTasksFromLocalStorage\<close> that is not an array
  has no \<open>findIndex\<close> and no \<open>push\<close>: a TypeError, raised before anything is written.
  The task with an id is returned as it came; the task without one is returned as
  stored.
\<close>

definition saveTaskToLocalStorage :: "clock \<Rightarrow> obj \<Rightarrow> dsm \<Rightarrow> error + (obj \<times> dsm)" where
  "saveTaskToLocalStorage clk task s =
     (let tasks = getTasksFromLocalStorage s
      in if truthy (map_of task ''id'')
         then (case tasks of
                 JArr ts \<Rightarrow>
                   (case findIndex_id (map_of task ''id'') ts of
                      Inl e \<Rightarrow> Inl e
                    | Inr (Some index) \<Rightarrow>
                        Inr (task, s\<lparr>localStorage := (localStorage s)\<lparr>TASKS := Some (Serialized
                          (JArr (ts[index := JObj (set_prop ''updatedAt'' (JStr (nowISO clk)) task)])))\<rparr>\<rparr>)
                    | Inr None \<Rightarrow>
                        Inr (task, s\<lparr>localStorage := (localStorage s)\<lparr>TASKS := Some (Serialized
                          (JArr (ts @ [JObj (set_prop ''updatedAt'' (JStr (nowISO clk)) task)])))\<rparr>\<rparr>))
               | _ \<Rightarrow> Inl TypeError)
         else (let newTask =
                     set_prop ''updatedAt'' (JStr (nowISO clk))
                       (set_prop ''createdAt'' (JStr (nowISO clk))
                          (set_prop ''id'' (JStr (''temp_'' @ decimal (nowMs clk))) task))
               in case tasks of
                    JArr ts \<Rightarrow>
                      Inr (newTask, s\<lparr>localStorage := (localStorage s)\<lparr>TASKS := Some (Serialized
                        (JArr (ts @ [JObj newTask])))\<rparr>\<rparr>)
                  | _ \<Rightarrow> Inl TypeError))"

definition deleteTaskFromLocalStorage :: "jsval \<Rightarrow> dsm \<Rightarrow> error + dsm" where
  "deleteTaskFromLocalStorage v s =
     (case getTasksFromLocalStorage s of
        JArr ts \<Rightarrow>
          (case filter_not_id v ts of
             Inl e \<Rightarrow> Inl e
           | Inr filtered \<Rightarrow>
               Inr (s\<lparr>localStorage := (localStorage s)\<lparr>TASKS := Some (Serialized (JArr filtered))\<rparr>\<rparr>))
      | _ \<Rightarrow> Inl TypeError)"

section \<open>DatabaseStorageManager: the facade\<close>

text \<open>
  \<open>saveTask\<close>. Online, the request goes to the remote; when it fails, \<open>makeApiRequest\<close>
  has queued it and the \<open>catch\<close> block saves the task locally. Offline, the task is
  saved locally and nothing else happens; an exception of that save reaches the
  \<open>catch\<close> block, which tries the same save again.
\<close>

definition saveTask :: "json option \<Rightarrow> clock \<Rightarrow> obj \<Rightarrow> dsm \<Rightarrow> (error + json) \<times> dsm" where
  "saveTask resp clk task s =
     (if isOnline s
      then (let r = makeApiRequest resp clk ''/tasks''
                      \<lparr>http_method = Some (if truthy (map_of task ''id'') then ''PUT'' else ''POST''),
                       headers = None, body = Some (JObj task)\<rparr> s
            in case fst r of
                 Inr result \<Rightarrow> (Inr result, snd r)
               | Inl e \<Rightarrow>
                   (case saveTaskToLocalStorage clk task (snd r) of
                      Inl e' \<Rightarrow> (Inl e', snd r)
                    | Inr (t, s') \<Rightarrow> (Inr (JObj t), s')))
      else (case saveTaskToLocalStorage clk task s of
              Inr (t, s') \<Rightarrow> (Inr (JObj t), s')
            | Inl e \<Rightarrow>
                (case saveTaskToLocalStorage clk task s of
                   Inl e' \<Rightarrow> (Inl e', s)
                 | Inr (t, s') \<Rightarrow> (Inr (JObj t), s'))))"

text \<open>
  \<open>getAllTasks\<close>. The request is made with no options at all. \<open>result.tasks || []\<close>
  is a TypeError when \<open>result\<close> is \<open>null\<close>, which the \<open>catch\<close> block turns into the
  local read.
\<close>

definition getAllTasks :: "json option \<Rightarrow> clock \<Rightarrow> dsm \<Rightarrow> json \<times> dsm" where
  "getAllTasks resp clk s =
     (if isOnline s
      then (let r = makeApiRequest resp clk ''/tasks'' no_options s
            in case fst r of
                 Inr result \<Rightarrow>
                   (case get_prop ''tasks'' result of
                      Inl e \<Rightarrow> (getTasksFromLocalStorage (snd r), snd r)
                    | Inr v \<Rightarrow>
                        (case v of
                           Some ts \<Rightarrow> (if truthy v then ts else JArr [], snd r)
                         | None \<Rightarrow> (JArr [], snd r)))
               | Inl e \<Rightarrow> (getTasksFromLocalStorage (snd r), snd r))
      else (getTasksFromLocalStorage s, s))"

text \<open>\<open>saveExpenseToLocalStorage\<close>, the twin of \<open>saveTaskToLocalStorage\<close> on the item \<open>EXPENSES\<close>.\<close>

definition saveExpenseToLocalStorage :: "clock \<Rightarrow> obj \<Rightarrow> dsm \<Rightarrow> error + (obj \<times> dsm)" where
  "saveExpenseToLocalStorage clk expense s =
     (let expenses = getExpensesFromLocalStorage s
      in if truthy (map_of expense ''id'')
         then (case expenses of
                 JArr es \<Rightarrow>
                   (case findIndex_id (map_of expense ''id'') es of
                      Inl e \<Rightarrow> Inl e
                    | Inr (Some index) \<Rightarrow>
                        Inr (expense, s\<lparr>localStorage := (localStorage s)\<lparr>EXPENSES := Some (Serialized
                          (JArr (es[index := JObj (set_prop ''updatedAt'' (JStr (nowISO clk)) expense)])))\<rparr>\<rparr>)
                    | Inr None \<Rightarrow>
                        Inr (expense, s\<lparr>localStorage := (localStorage s)\<lparr>EXPENSES := Some (Serialized
                          (JArr (es @ [JObj (set_prop ''updatedAt'' (JStr (nowISO clk)) expense)])))\<rparr>\<rparr>))
               | _ \<Rightarrow> Inl TypeError)
         else (let newExpense =
                     set_prop ''updatedAt'' (JStr (nowISO clk))
                       (set_prop ''createdAt'' (JStr (nowISO clk))
                          (set_prop ''id'' (JStr (''temp_'' @ decimal (nowMs clk))) expense))
               in case expenses of
                    JArr es \<Rightarrow>
                      Inr (newExpense, s\<lparr>localStorage := (localStorage s)\<lparr>EXPENSES := Some (Serialized
                        (JArr (es @ [JObj newExpense])))\<rparr>\<rparr>)
                  | _ \<Rightarrow> Inl TypeError))"

text \<open>
  \<open>saveExpense\<close>. Unlike \<open>saveTask\<close>, the offline branch queues the operation after the
  local save (\<open>// Store offline and add to pending operations\<close>). \<open>render\<close> is the
  platform's \<open>String(v)\<close>, by which the template literal puts the id into the
  endpoint; it is only called on an id that is there.
\<close>

definition saveExpense ::
  "(json \<Rightarrow> string) \<Rightarrow> json option \<Rightarrow> clock \<Rightarrow> obj \<Rightarrow> dsm \<Rightarrow> (error + jsval) \<times> dsm" where
  "saveExpense render resp clk expense s =
     (let has_id = truthy (map_of expense ''id'');
          id_text = (case map_of expense ''id'' of Some v \<Rightarrow> render v | None \<Rightarrow> []);
          opts = \<lparr>http_method = Some (if has_id then ''PUT'' else ''POST''),
                  headers = Some [(''Content-Type'', ''application/json'')],
                  body = Some (JObj expense)\<rparr>
      in if isOnline s
         then (let r = makeApiRequest resp clk
                         (if has_id then ''/expenses/'' @ id_text else ''/expenses'') opts s;
                   fallback = (case saveExpenseToLocalStorage clk expense (snd r) of
                                 Inl e' \<Rightarrow> (Inl e', snd r)
                               | Inr (x, s') \<Rightarrow> (Inr (Some (JObj x)), s'))
               in case fst r of
                    Inr result \<Rightarrow>
                      (case get_prop ''expense'' result of
                         Inl e \<Rightarrow> fallback
                       | Inr v \<Rightarrow> (Inr v, snd r))
                  | Inl e \<Rightarrow> fallback)
         else (case saveExpenseToLocalStorage clk expense s of
                 Inr (savedExpense, s1) \<Rightarrow>
                   (Inr (Some (JObj savedExpense)),
                    addPendingOperation clk
                      (''/expenses'' @ (if has_id then ''/'' @ id_text else [])) opts s1)
               | Inl e \<Rightarrow>
                   (case saveExpenseToLocalStorage clk expense s of
                      Inl e' \<Rightarrow> (Inl e', s)
                    | Inr (x, s') \<Rightarrow> (Inr (Some (JObj x)), s'))))"

section \<open>DatabaseStorageManager: export, import, clear\<close>

definition exportDataFromLocalStorage :: "clock \<Rightarrow> dsm \<Rightarrow> json" where
  "exportDataFromLocalStorage clk s =
     JObj [(''version'', JStr ''1.0''),
           (''exportDate'', JStr (nowISO clk)),
           (''tasks'', getTasksFromLocalStorage s),
           (''settings'', getSettingsFromLocalStorage s),
           (''statistics'', getStatisticsFromLocalStorage s)]"

text \<open>
  \<open>importDataToLocalStorage\<close>: each of \<open>data.tasks\<close>, \<open>data.settings\<close> and
  \<open>data.statistics\<close> is written when it is truthy. Reading a property of \<open>null\<close> is a
  TypeError.
\<close>

definition importDataToLocalStorage :: "json \<Rightarrow> dsm \<Rightarrow> error + dsm" where
  "importDataToLocalStorage data s =
     (case get_prop ''tasks'' data of
        Inl e \<Rightarrow> Inl e
      | Inr t \<Rightarrow>
          (let s1 = (case t of
                       Some v \<Rightarrow> if truthy t
                                 then s\<lparr>localStorage := (localStorage s)\<lparr>TASKS := Some (Serialized v)\<rparr>\<rparr>
                                 else s
                     | None \<Rightarrow> s)
           in case get_prop ''settings'' data of
                Inl e \<Rightarrow> Inl e
              | Inr st \<Rightarrow>
                  (let s2 = (case st of
                               Some v \<Rightarrow> if truthy st
                                         then s1\<lparr>localStorage := (localStorage s1)\<lparr>SETTINGS := Some (Serialized v)\<rparr>\<rparr>
                                         else s1
                             | None \<Rightarrow> s1)
                   in case get_prop ''statistics'' data of
                        Inl e \<Rightarrow> Inl e
                      | Inr sc \<Rightarrow>
                          Inr (case sc of
                                 Some v \<Rightarrow> if truthy sc
                                           then s2\<lparr>localStorage := (localStorage s2)\<lparr>STATISTICS := Some (Serialized v)\<rparr>\<rparr>
                                           else s2
                               | None \<Rightarrow> s2))))"

definition clearLocalStorageData :: "dsm \<Rightarrow> dsm" where
  "clearLocalStorageData s =
     s\<lparr>localStorage :=
         \<lparr>TASKS = None, SETTINGS = None, STATISTICS = None, EXPENSES = None, PENDING_OPS = None\<rparr>\<rparr>"

text \<open>
  The records of a collection value: the elements of an array, the properties of an
  object; a value of another shape holds none.
\<close>

fun records :: "json \<Rightarrow> json list" where
  "records (JArr xs) = xs"
| "records v = []"

fun entries :: "json \<Rightarrow> (string \<times> json) list" where
  "entries (JObj kvs) = kvs"
| "entries v = []"

text \<open>
  The round trip of the local store: export, clear, import the exported document.
\<close>

definition round_trip :: "clock \<Rightarrow> dsm \<Rightarrow> error + dsm" where
  "round_trip clk s =
     importDataToLocalStorage (exportDataFromLocalStorage clk s) (clearLocalStorageData s)"

text \<open>
  What the round trip is expected to do with one item, said without the functions of
  the manager. \<open>item_value\<close> is the collection an item stands for: the value it
  serialises, and the empty collection when the item is absent, empty or does not
  parse. \<open>item_restored\<close> is the item after the round trip: that collection, serialised
  again; a collection value that is falsy is not written back.
\<close>

definition item_value :: "json stored option \<Rightarrow> json \<Rightarrow> json" where
  "item_value item dflt = (case item of Some (Serialized v) \<Rightarrow> v | _ \<Rightarrow> dflt)"

definition item_restored :: "json stored option \<Rightarrow> json \<Rightarrow> json stored option" where
  "item_restored item dflt =
     (if truthy (Some (item_value item dflt)) then Some (Serialized (item_value item dflt))
      else None)"

section \<open>StorageManager: IndexedDB with a localStorage fallback\<close>

text \<open>
  The object store \<open>tasks\<close> of the database (key path \<open>id\<close>) is the list of its keys and
  records, the store \<open>settings\<close> the list of its keys and stored values, the store
  \<open>statistics\<close> the list of its records. \<open>localStorage\<close> is a map from item names to
  texts, since the names of the settings items are built from the setting's key.
\<close>

record idb =
  tasks_store :: "(json \<times> json) list"
  settings_store :: "(string \<times> json) list"
  statistics_store :: "json list"

record storage_manager =
  isIndexedDBAvailable :: bool
  db :: "idb option"
  items :: "string \<Rightarrow> json stored option"

definition storageKeys_TASKS :: string where
  "storageKeys_TASKS = ''plannerpro_tasks''"

definition storageKeys_SETTINGS :: string where
  "storageKeys_SETTINGS = ''plannerpro_settings''"

definition storageKeys_STATISTICS :: string where
  "storageKeys_STATISTICS = ''plannerpro_statistics''"

text \<open>A valid IndexedDB key among the JSON values: a number, a string, an array of keys.\<close>

fun valid_key :: "json \<Rightarrow> bool" where
  "valid_key (JNum n) = True"
| "valid_key (JStr s) = True"
| "valid_key (JArr xs) = list_all valid_key xs"
| "valid_key v = False"

text \<open>
  In the IndexedDB branch every method does \<open>return new Promise(...)\<close> inside its
  \<open>try\<close> block without awaiting it. A promise that rejects after the function has
  returned it is not seen by the \<open>catch\<close> block: the rejection is the result of the
  method. \<open>fault\<close> is the failure of the IndexedDB request, if any (\<open>request.onerror\<close>,
  or an exception of \<open>transaction\<close> inside the promise's executor).
\<close>

definition StorageManager_getAllTasks :: "error option \<Rightarrow> storage_manager \<Rightarrow> error + json" where
  "StorageManager_getAllTasks fault sm =
     (case (isIndexedDBAvailable sm, db sm) of
        (True, Some d) \<Rightarrow>
          (case fault of
             Some e \<Rightarrow> Inl e
           | None \<Rightarrow> Inr (JArr (map snd (tasks_store d))))
      | _ \<Rightarrow>
          (case parse_or (items sm storageKeys_TASKS) (JArr []) of
             Inl e \<Rightarrow> Inr (JArr [])
           | Inr v \<Rightarrow> Inr v))"

definition StorageManager_getStatistics :: "error option \<Rightarrow> storage_manager \<Rightarrow> error + json" where
  "StorageManager_getStatistics fault sm =
     (case (isIndexedDBAvailable sm, db sm) of
        (True, Some d) \<Rightarrow>
          (case fault of
             Some e \<Rightarrow> Inl e
           | None \<Rightarrow> Inr (JArr (statistics_store d)))
      | _ \<Rightarrow>
          (case parse_or (items sm storageKeys_STATISTICS) (JArr []) of
             Inl e \<Rightarrow> Inr (JArr [])
           | Inr v \<Rightarrow> Inr v))"

text \<open>\<open>tasks.find(task => task.id === v)\<close> on the elements of an array.\<close>

fun find_id :: "jsval \<Rightarrow> json list \<Rightarrow> error + jsval" where
  "find_id v [] = Inr None"
| "find_id v (t # ts) =
     (case get_prop ''id'' t of
        Inl e \<Rightarrow> Inl e
      | Inr w \<Rightarrow> if strict_eq w v then Inr (Some t) else find_id v ts)"

text \<open>
  \<open>getTask\<close>. \<open>store.get\<close> with a value that is no valid key raises a DataError in the
  executor. In the fallback branch an exception of \<open>tasks.find\<close> is caught and the
  method returns \<open>null\<close>.
\<close>

definition StorageManager_getTask :: "error option \<Rightarrow> jsval \<Rightarrow> storage_manager \<Rightarrow> error + jsval" where
  "StorageManager_getTask fault v sm =
     (case (isIndexedDBAvailable sm, db sm) of
        (True, Some d) \<Rightarrow>
          (case fault of
             Some e \<Rightarrow> Inl e
           | None \<Rightarrow>
               (case v of
                  Some k \<Rightarrow> if valid_key k then Inr (map_of (tasks_store d) k) else Inl DataError
                | None \<Rightarrow> Inl DataError))
      | _ \<Rightarrow>
          (case StorageManager_getAllTasks fault sm of
             Inr (JArr ts) \<Rightarrow>
               (case find_id v ts of Inl e \<Rightarrow> Inr (Some JNull) | Inr r \<Rightarrow> Inr r)
           | _ \<Rightarrow> Inr (Some JNull)))"

text \<open>\<open>getSetting(key, defaultValue)\<close>; the item read is \<open>plannerpro_settings_<key>\<close>.\<close>

definition StorageManager_getSetting ::
  "error option \<Rightarrow> string \<Rightarrow> json \<Rightarrow> storage_manager \<Rightarrow> error + json" where
  "StorageManager_getSetting fault key defaultValue sm =
     (case (isIndexedDBAvailable sm, db sm) of
        (True, Some d) \<Rightarrow>
          (case fault of
             Some e \<Rightarrow> Inl e
           | None \<Rightarrow>
               (case map_of (settings_store d) key of
                  Some val \<Rightarrow> Inr val
                | None \<Rightarrow> Inr defaultValue))
      | _ \<Rightarrow>
          (case parse_or (items sm (storageKeys_SETTINGS @ ''_'' @ key)) defaultValue of
             Inl e \<Rightarrow> Inr defaultValue
           | Inr v \<Rightarrow> Inr v))"

text \<open>
  \<open>deleteTask\<close>. Deleting a key that the object store does not hold succeeds. In the
  fallback branch an exception of \<open>tasks.filter\<close> is caught, logged and thrown again.
\<close>

definition StorageManager_deleteTask ::
  "error option \<Rightarrow> jsval \<Rightarrow> storage_manager \<Rightarrow> (error + bool) \<times> storage_manager" where
  "StorageManager_deleteTask fault v sm =
     (case (isIndexedDBAvailable sm, db sm) of
        (True, Some d) \<Rightarrow>
          (case fault of
             Some e \<Rightarrow> (Inl e, sm)
           | None \<Rightarrow>
               (case v of
                  Some k \<Rightarrow>
                    if valid_key k
                    then (Inr True,
                          sm\<lparr>db := Some (d\<lparr>tasks_store := filter (\<lambda>kr. fst kr \<noteq> k) (tasks_store d)\<rparr>)\<rparr>)
                    else (Inl DataError, sm)
                | None \<Rightarrow> (Inl DataError, sm)))
      | _ \<Rightarrow>
          (case StorageManager_getAllTasks fault sm of
             Inr (JArr ts) \<Rightarrow>
               (case filter_not_id v ts of
                  Inl e \<Rightarrow> (Inl e, sm)
                | Inr filteredTasks \<Rightarrow>
                    (Inr True,
                     sm\<lparr>items := (items sm)(storageKeys_TASKS \<mapsto> Serialized (JArr filteredTasks))\<rparr>))
           | _ \<Rightarrow> (Inl TypeError, sm)))"

section \<open>StatisticsManager: completion statistics\<close>

text \<open>
  The fields of a task that the statistics read, with the types the task manager
  gives them: \<open>status\<close> a string, \<open>dueDate\<close> a date string or \<open>null\<close>, \<open>createdAt\<close> a
  string.
\<close>

record task =
  status :: string
  dueDate :: "string option"
  createdAt :: string

text \<open>
  What the platform's \<open>Date\<close> gives at the moment of the call: \<open>today\<close> is
  \<open>new Date().toISOString().split('T')[0]\<close>; \<open>date_parse t\<close> is the time value of
  \<open>new Date(t)\<close>, \<open>None\<close> for an invalid date; \<open>weekAgo\<close>, \<open>monthAgo\<close> and \<open>yearAgo\<close>
  are the time values of the current date after \<open>setDate(getDate() - 7)\<close>,
  \<open>setMonth(getMonth() - 1)\<close> and \<open>setFullYear(getFullYear() - 1)\<close>.
\<close>

record dates =
  today :: string
  date_parse :: "string \<Rightarrow> int option"
  weekAgo :: int
  monthAgo :: int
  yearAgo :: int

record completion_stats =
  completed :: nat
  pending :: nat
  overdue :: nat
  total :: nat

text \<open>A comparison with an invalid date is false.\<close>

definition getTasksForPeriod :: "dates \<Rightarrow> string \<Rightarrow> task list \<Rightarrow> task list" where
  "getTasksForPeriod env currentPeriod tasks =
     (let startDate =
            (if currentPeriod = ''week'' then weekAgo env
             else if currentPeriod = ''month'' then monthAgo env
             else if currentPeriod = ''year'' then yearAgo env
             else 0)
      in filter (\<lambda>t. case date_parse env (createdAt t) of
                       None \<Rightarrow> False
                     | Some taskDate \<Rightarrow> startDate \<le> taskDate) tasks)"

text \<open>
  The body of \<open>periodTasks.forEach\<close>. The strings \<open>task.dueDate\<close> and \<open>today\<close> are
  compared as strings, character by character.
\<close>

definition count_task :: "string \<Rightarrow> completion_stats \<Rightarrow> task \<Rightarrow> completion_stats" where
  "count_task tday stats t =
     (if status t = ''completed'' then stats\<lparr>completed := completed stats + 1\<rparr>
      else if (case dueDate t of None \<Rightarrow> False | Some d \<Rightarrow> d \<noteq> [] \<and> d < tday)
      then stats\<lparr>overdue := overdue stats + 1\<rparr>
      else stats\<lparr>pending := pending stats + 1\<rparr>)"

definition getCompletionStats :: "dates \<Rightarrow> string \<Rightarrow> task list \<Rightarrow> completion_stats" where
  "getCompletionStats env currentPeriod tasks =
     (let periodTasks = getTasksForPeriod env currentPeriod tasks
      in foldl (count_task (today env))
           \<lparr>completed = 0, pending = 0, overdue = 0, total = length periodTasks\<rparr> periodTasks)"

text \<open>
  The situation in which the loop of \<open>syncPendingOperations\<close> puts every entry back:
  the manager is online, every request fails, and no queued operation names the
  method GET.
\<close>

definition requeues :: "(nat \<Rightarrow> json option) \<Rightarrow> nat \<Rightarrow> dsm \<Rightarrow> bool" where
  "requeues net i s \<longleftrightarrow>
     (\<forall>j. net j = None) \<and> isOnline s
     \<and> (\<forall>operation \<in> set (pendingOperations s). http_method (options operation) \<noteq> Some ''GET'')
     \<and> i < length (pendingOperations s)"

text \<open>
  A read operation is one that \<open>fetch\<close> sends as a GET: its options name the method
  \<open>GET\<close> or name no method at all.
\<close>

definition is_read :: "operation \<Rightarrow> bool" where
  "is_read operation =
     (case http_method (options operation) of None \<Rightarrow> True | Some m \<Rightarrow> m = ''GET'')"

section \<open>Concrete states\<close>

definition empty_storage :: local_storage where
  "empty_storage =
     \<lparr>TASKS = None, SETTINGS = None, STATISTICS = None, EXPENSES = None, PENDING_OPS = None\<rparr>"

definition noon :: clock where
  "noon = \<lparr>nowMs = 1715342400000, nowISO = ''2024-05-10T12:00:00.000Z''\<rparr>"

definition later :: clock where
  "later = \<lparr>nowMs = 1715346000000, nowISO = ''2024-05-10T13:00:00.000Z''\<rparr>"

definition buy_milk :: obj where
  "buy_milk = [(''title'', JStr ''Buy milk''), (''category'', JStr ''home'')]"

definition pay_rent :: obj where
  "pay_rent = [(''id'', JStr ''task_7''), (''title'', JStr ''Pay rent''), (''category'', JStr ''home'')]"

definition op_create :: operation where
  "op_create =
     \<lparr>endpoint = ''/tasks'',
      options = \<lparr>http_method = Some ''POST'', headers = None, body = Some (JObj buy_milk)\<rparr>,
      timestamp = 1715342400000\<rparr>"

definition op_theme :: operation where
  "op_theme =
     \<lparr>endpoint = ''/settings'',
      options = \<lparr>http_method = Some ''POST'', headers = None,
                 body = Some (JObj [(''key'', JStr ''theme''), (''value'', JStr ''dark'')])\<rparr>,
      timestamp = 1715342400001\<rparr>"

text \<open>Two operations queued and persisted while the browser is offline.\<close>

definition queued_offline :: dsm where
  "queued_offline =
     \<lparr>isOnline = False, pendingOperations = [op_create, op_theme],
      localStorage = empty_storage\<lparr>PENDING_OPS := Some (Serialized [op_create, op_theme])\<rparr>\<rparr>"

text \<open>The same queue while the browser is online.\<close>

definition queued_online :: dsm where
  "queued_online =
     \<lparr>isOnline = True, pendingOperations = [op_create, op_theme],
      localStorage = empty_storage\<lparr>PENDING_OPS := Some (Serialized [op_create, op_theme])\<rparr>\<rparr>"

definition drained :: dsm where
  "drained = \<lparr>isOnline = False, pendingOperations = [], localStorage = empty_storage\<rparr>"

definition online_idle :: dsm where
  "online_idle = \<lparr>isOnline = True, pendingOperations = [], localStorage = empty_storage\<rparr>"

definition offline_idle :: dsm where
  "offline_idle = \<lparr>isOnline = False, pendingOperations = [], localStorage = empty_storage\<rparr>"

definition old_rent :: obj where
  "old_rent =
     [(''id'', JStr ''task_7''), (''title'', JStr ''Rent''),
      (''updatedAt'', JStr ''2024-05-01T08:00:00.000Z'')]"

definition with_rent :: dsm where
  "with_rent =
     \<lparr>isOnline = False, pendingOperations = [],
      localStorage = empty_storage\<lparr>TASKS := Some (Serialized (JArr [JObj old_rent]))\<rparr>\<rparr>"

definition online_with_rent :: dsm where
  "online_with_rent =
     \<lparr>isOnline = True, pendingOperations = [],
      localStorage = empty_storage\<lparr>TASKS := Some (Serialized (JArr [JObj old_rent]))\<rparr>\<rparr>"

definition milk_saved :: obj where
  "milk_saved =
     buy_milk @ [(''id'', JStr ''temp_1715342400000''),
                 (''createdAt'', JStr ''2024-05-10T12:00:00.000Z''),
                 (''updatedAt'', JStr ''2024-05-10T12:00:00.000Z'')]"

definition after_failed_save :: dsm where
  "after_failed_save =
     \<lparr>isOnline = True, pendingOperations = [op_create],
      localStorage = empty_storage
        \<lparr>TASKS := Some (Serialized (JArr [JObj old_rent, JObj milk_saved])),
         PENDING_OPS := Some (Serialized [op_create])\<rparr>\<rparr>"

definition after_drain :: dsm where
  "after_drain =
     \<lparr>isOnline = True, pendingOperations = [],
      localStorage = empty_storage
        \<lparr>TASKS := Some (Serialized (JArr [JObj old_rent, JObj milk_saved]))\<rparr>\<rparr>"

definition without_rent :: dsm where
  "without_rent =
     \<lparr>isOnline = False, pendingOperations = [],
      localStorage = empty_storage\<lparr>TASKS := Some (Serialized (JArr []))\<rparr>\<rparr>"

definition fallback_with_rent :: storage_manager where
  "fallback_with_rent =
     \<lparr>isIndexedDBAvailable = False, db = None,
      items = [storageKeys_TASKS \<mapsto> Serialized (JArr [JObj old_rent])]\<rparr>"

definition fallback_without_rent :: storage_manager where
  "fallback_without_rent =
     \<lparr>isIndexedDBAvailable = False, db = None,
      items = [storageKeys_TASKS \<mapsto> Serialized (JArr [])]\<rparr>"

definition indexed_with_rent :: storage_manager where
  "indexed_with_rent =
     \<lparr>isIndexedDBAvailable = True,
      db = Some \<lparr>tasks_store = [(JStr ''task_7'', JObj old_rent)], settings_store = [],
                  statistics_store = []\<rparr>,
      items = Map.empty\<rparr>"

definition indexed_without_rent :: storage_manager where
  "indexed_without_rent =
     \<lparr>isIndexedDBAvailable = True,
      db = Some \<lparr>tasks_store = [], settings_store = [], statistics_store = []\<rparr>,
      items = Map.empty\<rparr>"

text \<open>A store with one task and one expense, and the same store after the round trip.\<close>

definition lunch :: obj where
  "lunch =
     [(''id'', JStr ''temp_1715000000000''), (''description'', JStr ''Lunch''),
      (''amount'', JNum 12), (''category'', JStr ''food'')]"

definition with_expense :: dsm where
  "with_expense =
     \<lparr>isOnline = False, pendingOperations = [],
      localStorage = empty_storage
        \<lparr>TASKS := Some (Serialized (JArr [JObj old_rent])),
         EXPENSES := Some (Serialized (JArr [JObj lunch]))\<rparr>\<rparr>"

definition expense_lost :: dsm where
  "expense_lost =
     \<lparr>isOnline = False, pendingOperations = [],
      localStorage =
        \<lparr>TASKS = Some (Serialized (JArr [JObj old_rent])),
         SETTINGS = Some (Serialized (JObj [])),
         STATISTICS = Some (Serialized (JArr [])),
         EXPENSES = None, PENDING_OPS = None\<rparr>\<rparr>"

text \<open>
  Noon (UTC) of 10 May 2024 as the statistics see it; the only creation time that
  occurs below is 8 May, 09:00.
\<close>

definition may10 :: dates where
  "may10 =
     \<lparr>today = ''2024-05-10'',
      date_parse = (\<lambda>t. if t = ''2024-05-08T09:00:00.000Z'' then Some 1715158800000 else None),
      weekAgo = 1714737600000, monthAgo = 1712750400000, yearAgo = 1683720000000\<rparr>"

definition due_today :: task where
  "due_today =
     \<lparr>status = ''pending'', dueDate = Some ''2024-05-10'',
      createdAt = ''2024-05-08T09:00:00.000Z''\<rparr>"

definition due_yesterday :: task where
  "due_yesterday =
     \<lparr>status = ''pending'', dueDate = Some ''2024-05-09'',
      createdAt = ''2024-05-08T09:00:00.000Z''\<rparr>"

definition due_next_week :: task where
  "due_next_week =
     \<lparr>status = ''completed'', dueDate = Some ''2024-05-17'',
      createdAt = ''2024-05-08T09:00:00.000Z''\<rparr>"

text \<open>A network on which the first request of a pass fails and every later one succeeds.\<close>

fun first_fails :: "nat \<Rightarrow> json option" where
  "first_fails 0 = None"
| "first_fails (Suc n) = Some JNull"

definition always_ok :: "nat \<Rightarrow> json option" where
  "always_ok i = Some JNull"

section \<open>Properties\<close>

text \<open>
  C8. For every queue state and every operation, \<open>addPendingOperation\<close> appends the
  operation after all existing entries, which keep their order, and stores the whole
  queue in the \<open>PENDING_OPS\<close> item: after the call the persisted queue is the queue in
  memory. Nothing else in the state changes.
\<close>

theorem addPendingOperation_appends_and_persists:
  "pendingOperations (addPendingOperation clk ep opts s) =
     pendingOperations s @ [\<lparr>endpoint = ep, options = opts, timestamp = nowMs clk\<rparr>]
   \<and> PENDING_OPS (localStorage (addPendingOperation clk ep opts s)) =
       Some (Serialized (pendingOperations (addPendingOperation clk ep opts s)))
   \<and> parse_or (PENDING_OPS (localStorage (addPendingOperation clk ep opts s))) [] =
       Inr (pendingOperations (addPendingOperation clk ep opts s))
   \<and> isOnline (addPendingOperation clk ep opts s) = isOnline s
   \<and> TASKS (localStorage (addPendingOperation clk ep opts s)) = TASKS (localStorage s)
   \<and> SETTINGS (localStorage (addPendingOperation clk ep opts s)) = SETTINGS (localStorage s)
   \<and> STATISTICS (localStorage (addPendingOperation clk ep opts s)) = STATISTICS (localStorage s)
   \<and> EXPENSES (localStorage (addPendingOperation clk ep opts s)) = EXPENSES (localStorage s)"
  by (simp add: addPendingOperation_def Let_def parse_or_def)

subsection \<open>The drain\<close>

text \<open>
  As long as no failed request is put back on the queue (the manager is offline, or
  the failed operation names the method GET), the loop visits each entry once, leaves
  the state alone and collects the accepted operations.
\<close>

lemma sync_loop_quiet:
  assumes "\<forall>j. i \<le> j \<and> j < length (pendingOperations s) \<and> net j = None \<longrightarrow>
             \<not> isOnline s \<or> http_method (options (pendingOperations s ! j)) = Some ''GET''"
  shows "sync_loop net clk i s applied =
           Some (s, applied @ map (\<lambda>j. pendingOperations s ! j)
                               (filter (\<lambda>j. net j \<noteq> None) [i..<length (pendingOperations s)]))"
  using assms
proof (induction "length (pendingOperations s) - i" arbitrary: i applied)
  case 0
  then show ?case by (subst sync_loop.simps) simp
next
  case (Suc n)
  then have lt: "i < length (pendingOperations s)" by simp
  have step: "snd (makeApiRequest (net i) clk (endpoint (pendingOperations s ! i))
                      (options (pendingOperations s ! i)) s) = s"
    using Suc.prems lt by (auto simp: makeApiRequest_def split: option.splits)
  have n: "n = length (pendingOperations s) - Suc i" using Suc.hyps by simp
  have ih: "sync_loop net clk (Suc i) s app' =
     Some (s, app' @ map (\<lambda>j. pendingOperations s ! j)
                       (filter (\<lambda>j. net j \<noteq> None) [Suc i..<length (pendingOperations s)]))" for app'
    using Suc.hyps(1)[OF n] Suc.prems by auto
  show ?case
    apply (subst sync_loop.simps)
    using lt step ih
    by (auto simp: Let_def upt_conv_Cons makeApiRequest_def split: option.splits sum.splits)
qed

lemma syncPendingOperations_quiet:
  assumes "parse_or (PENDING_OPS (localStorage s)) (pendingOperations s) = Inr q"
    and "\<forall>j. j < length q \<and> net j = None \<longrightarrow>
           \<not> isOnline s \<or> http_method (options (q ! j)) = Some ''GET''"
  shows "syncPendingOperations net clk s =
           Some (s\<lparr>pendingOperations := [],
                   localStorage := (if q = [] then localStorage s
                                    else (localStorage s)\<lparr>PENDING_OPS := None\<rparr>)\<rparr>,
                 map (\<lambda>j. q ! j) (filter (\<lambda>j. net j \<noteq> None) [0..<length q]))"
proof (cases "q = []")
  case True
  then show ?thesis using assms(1) by (simp add: syncPendingOperations_def)
next
  case False
  let ?s1 = "s\<lparr>pendingOperations := q\<rparr>"
  have "sync_loop net clk 0 ?s1 [] =
     Some (?s1, [] @ map (\<lambda>j. pendingOperations ?s1 ! j)
                        (filter (\<lambda>j. net j \<noteq> None) [0..<length (pendingOperations ?s1)]))"
    by (rule sync_loop_quiet) (use assms(2) in simp)
  then show ?thesis using assms(1) False
    by (simp add: syncPendingOperations_def)
qed

text \<open>
  C1 (amended). Let \<open>q\<close> be the queue the pass starts from (the persisted one when it
  parses, the one in memory otherwise), and let no failed request be put back on the
  queue during the pass. Then \<open>syncPendingOperations\<close> returns; it has sent every
  entry of \<open>q\<close> once, in insertion order, going on after a failure; the remote has
  accepted exactly the entries whose request succeeded, in that order; and afterwards
  the queue in memory is empty and, when \<open>q\<close> was not empty, the persisted item is
  removed: failed entries are dropped with the successful ones.
\<close>

theorem sync_replays_all_and_clears:
  assumes "parse_or (PENDING_OPS (localStorage s)) (pendingOperations s) = Inr q"
    and "\<forall>j. j < length q \<and> net j = None \<longrightarrow>
           \<not> isOnline s \<or> http_method (options (q ! j)) = Some ''GET''"
  shows "syncPendingOperations net clk s =
           Some (s\<lparr>pendingOperations := [],
                   localStorage := (if q = [] then localStorage s
                                    else (localStorage s)\<lparr>PENDING_OPS := None\<rparr>)\<rparr>,
                 map (\<lambda>j. q ! j) (filter (\<lambda>j. net j \<noteq> None) [0..<length q]))"
  using assms by (rule syncPendingOperations_quiet)

theorem sync_replays_all_and_clears_witness:
  "parse_or (PENDING_OPS (localStorage queued_offline)) (pendingOperations queued_offline) =
     Inr [op_create, op_theme]
   \<and> \<not> isOnline queued_offline
   \<and> first_fails 0 = None
   \<and> syncPendingOperations first_fails noon queued_offline = Some (drained, [op_theme])"
proof -
  have p: "parse_or (PENDING_OPS (localStorage queued_offline)) (pendingOperations queued_offline) =
             Inr [op_create, op_theme]"
    by (simp add: parse_or_def queued_offline_def empty_storage_def)
  have off: "\<not> isOnline queued_offline" by (simp add: queued_offline_def)
  have h: "\<forall>j. j < length [op_create, op_theme] \<and> first_fails j = None \<longrightarrow>
           \<not> isOnline queued_offline \<or> http_method (options ([op_create, op_theme] ! j)) = Some ''GET''"
    using off by simp
  have f: "filter (\<lambda>j. first_fails j \<noteq> None) [0..<length [op_create, op_theme]] = [1]"
    by (simp add: upt_conv_Cons)
  have d: "queued_offline\<lparr>pendingOperations := [],
             localStorage := (localStorage queued_offline)\<lparr>PENDING_OPS := None\<rparr>\<rparr> = drained"
    by (simp add: queued_offline_def drained_def empty_storage_def)
  show ?thesis
    using sync_replays_all_and_clears [OF p h, of noon] p off f d by simp
qed

text \<open>
  A pass over the same queue while online, the first request failing: the failed
  operation is pushed again (with the timestamp of that moment, here the one it had)
  and visited after the second operation.
\<close>

lemma online_retry_run:
  "sync_loop first_fails noon 0 queued_online [] =
     Some (queued_online\<lparr>pendingOperations := [op_create, op_theme, op_create],
             localStorage := empty_storage\<lparr>PENDING_OPS :=
               Some (Serialized [op_create, op_theme, op_create])\<rparr>\<rparr>,
           [op_theme, op_create])"
  apply (subst sync_loop.simps)
  apply (simp add: queued_online_def makeApiRequest_def addPendingOperation_def Let_def
           op_create_def op_theme_def noon_def empty_storage_def)
  apply (subst sync_loop.simps)
  apply (simp add: makeApiRequest_def addPendingOperation_def Let_def)
  apply (subst sync_loop.simps)
  apply (simp add: makeApiRequest_def addPendingOperation_def Let_def)
  apply (subst sync_loop.simps)
  apply (simp add: makeApiRequest_def addPendingOperation_def Let_def)
  done

text \<open>
  C1 as stated fails. Take two queued operations, the first request of the pass
  failing and every later one succeeding. Offline, the code sends the second
  operation to the remote after the first has failed, and ends with an empty queue
  and no persisted item: the failed entry is lost. Online, the remote accepts the
  second operation before the first, which is retried behind it. The drain of the
  specification would stop at the first entry, apply nothing and keep both entries.
\<close>

theorem sync_continues_past_failure_counterexample:
  "first_fails 0 = None
   \<and> syncPendingOperations first_fails noon queued_offline = Some (drained, [op_theme])
   \<and> pendingOperations drained = []
   \<and> PENDING_OPS (localStorage drained) = None
   \<and> syncPendingOperations first_fails noon queued_online = Some (online_idle, [op_theme, op_create])
   \<and> pendingOperations queued_online = [op_create, op_theme]
   \<and> drain_spec first_fails 0 (pendingOperations queued_offline) = ([op_create, op_theme], [])
   \<and> (pendingOperations drained, [op_theme]) \<noteq>
       drain_spec first_fails 0 (pendingOperations queued_offline)
   \<and> (pendingOperations online_idle, [op_theme, op_create]) \<noteq>
       drain_spec first_fails 0 (pendingOperations queued_online)"
proof -
  have q: "\<not> isOnline (queued_offline\<lparr>pendingOperations := [op_create, op_theme]\<rparr>)"
    by (simp add: queued_offline_def)
  have "sync_loop first_fails noon 0 (queued_offline\<lparr>pendingOperations := [op_create, op_theme]\<rparr>) [] =
          Some (queued_offline\<lparr>pendingOperations := [op_create, op_theme]\<rparr>, [op_theme])"
    by (subst sync_loop_quiet) (use q in \<open>simp_all add: upt_conv_Cons\<close>)
  then have off: "syncPendingOperations first_fails noon queued_offline = Some (drained, [op_theme])"
    by (simp add: syncPendingOperations_def parse_or_def queued_offline_def drained_def
          empty_storage_def)
  have on: "syncPendingOperations first_fails noon queued_online =
              Some (online_idle, [op_theme, op_create])"
    using online_retry_run
    by (simp add: syncPendingOperations_def parse_or_def queued_online_def online_idle_def
          empty_storage_def)
  from off on show ?thesis
    by (simp add: drained_def empty_storage_def queued_offline_def queued_online_def
          online_idle_def)
qed

text \<open>
  Online, a failed write is pushed on the array the loop is iterating over, so it is
  tried again in the same pass; as long as every request fails the pass does not
  return.
\<close>

lemma requeues_step:
  assumes "requeues net i s"
  shows "makeApiRequest (net i) clk (endpoint (pendingOperations s ! i)) (options (pendingOperations s ! i)) s =
           (Inl ApiError, addPendingOperation clk (endpoint (pendingOperations s ! i)) (options (pendingOperations s ! i)) s)"
    and "requeues net (Suc i) (addPendingOperation clk (endpoint (pendingOperations s ! i)) (options (pendingOperations s ! i)) s)"
  using assms by (auto simp: requeues_def makeApiRequest_def addPendingOperation_def Let_def)

lemma sync_loop_never_returns:
  assumes "sync_loop net clk i s applied = Some y"
  shows "\<not> requeues net i s"
  using assms
proof (rule sync_loop.raw_induct[rotated, where P = "\<lambda>net clk i s applied y. \<not> requeues net i s"], goal_cases)
  case (1 f net clk i s applied y)
  show ?case
  proof
    assume r: "requeues net i s"
    then have lt: "i < length (pendingOperations s)" by (simp add: requeues_def)
    let ?s' = "addPendingOperation clk (endpoint (pendingOperations s ! i))
                 (options (pendingOperations s ! i)) s"
    from 1(2) lt requeues_step(1)[OF r, of clk]
    have "f net clk (Suc i) ?s' applied = Some y" by (simp add: Let_def)
    from 1(1)[OF this] requeues_step(2)[OF r, of clk] show False by simp
  qed
qed

lemma sync_loop_diverges:
  "requeues net i s \<Longrightarrow> sync_loop net clk i s applied = None"
  using sync_loop_never_returns[of net clk i s applied] by (cases "sync_loop net clk i s applied") auto

lemma syncPendingOperations_diverges:
  assumes "isOnline s" and "\<forall>j. net j = None"
    and "parse_or (PENDING_OPS (localStorage s)) (pendingOperations s) = Inr q" and "q \<noteq> []"
    and "\<forall>operation \<in> set q. http_method (options operation) \<noteq> Some ''GET''"
  shows "syncPendingOperations net clk s = None"
proof -
  have "requeues net 0 (s\<lparr>pendingOperations := q\<rparr>)"
    using assms by (simp add: requeues_def)
  from sync_loop_diverges[OF this] assms(3,4) show ?thesis
    by (simp add: syncPendingOperations_def)
qed

subsection \<open>What reaches the queue\<close>

text \<open>
  C2 fails on the code. \<open>getAllTasks\<close> calls \<open>makeApiRequest('/tasks')\<close> with no
  options; when the manager is online and the request fails, the test
  \<open>options.method !== 'GET'\<close> compares \<open>undefined\<close> with \<open>'GET'\<close>, holds, and the read
  is appended to the queue and persisted.
\<close>

theorem failed_read_is_queued:
  "getAllTasks None noon online_idle =
     (JArr [],
      online_idle\<lparr>pendingOperations :=
                    [\<lparr>endpoint = ''/tasks'', options = no_options, timestamp = nowMs noon\<rparr>],
                  localStorage := empty_storage\<lparr>PENDING_OPS := Some (Serialized
                    [\<lparr>endpoint = ''/tasks'', options = no_options, timestamp = nowMs noon\<rparr>])\<rparr>\<rparr>)
   \<and> is_read \<lparr>endpoint = ''/tasks'', options = no_options, timestamp = nowMs noon\<rparr>"
  by (simp add: getAllTasks_def makeApiRequest_def online_idle_def no_options_def
        addPendingOperation_def getTasksFromLocalStorage_def parse_or_def empty_storage_def
        is_read_def Let_def)

lemma decimal_noon: "decimal 1715342400000 = ''1715342400000''"
  by (simp add: decimal.simps)

text \<open>
  C3 fails on the code when the manager is offline: \<open>saveTask\<close> writes the task to
  the local store and leaves the queue and its persisted item untouched, so nothing
  is there to replay. (\<open>saveExpense\<close> does queue the operation in its offline
  branch.)
\<close>

theorem offline_saveTask_not_queued:
  "saveTask resp noon buy_milk offline_idle =
     (Inr (JObj (buy_milk @ [(''id'', JStr ''temp_1715342400000''),
                             (''createdAt'', JStr ''2024-05-10T12:00:00.000Z''),
                             (''updatedAt'', JStr ''2024-05-10T12:00:00.000Z'')])),
      offline_idle\<lparr>localStorage := empty_storage\<lparr>TASKS := Some (Serialized (JArr
        [JObj (buy_milk @ [(''id'', JStr ''temp_1715342400000''),
                           (''createdAt'', JStr ''2024-05-10T12:00:00.000Z''),
                           (''updatedAt'', JStr ''2024-05-10T12:00:00.000Z'')])]))\<rparr>\<rparr>)
   \<and> pendingOperations (snd (saveTask resp noon buy_milk offline_idle)) = []
   \<and> PENDING_OPS (localStorage (snd (saveTask resp noon buy_milk offline_idle))) = None"
  by (simp add: saveTask_def saveTaskToLocalStorage_def offline_idle_def
        getTasksFromLocalStorage_def parse_or_def empty_storage_def buy_milk_def noon_def
        decimal_noon Let_def)

subsection \<open>The localStorage fallback\<close>

lemma map_of_set_prop: "map_of (set_prop k v ps) k' = (if k' = k then Some v else map_of ps k')"
  by (induction ps) auto

lemma findIndex_id_Some:
  "findIndex_id v ts = Inr (Some i) \<Longrightarrow>
     i < length ts \<and> (\<exists>w. get_prop ''id'' (ts ! i) = Inr w \<and> strict_eq w v)
     \<and> (\<forall>j<i. \<exists>w. get_prop ''id'' (ts ! j) = Inr w \<and> \<not> strict_eq w v)"
proof (induction ts arbitrary: i)
  case Nil
  then show ?case by simp
next
  case (Cons t ts)
  show ?case
  proof (cases "get_prop ''id'' t")
    case (Inl e)
    with Cons.prems show ?thesis by simp
  next
    case (Inr w)
    show ?thesis
    proof (cases "strict_eq w v")
      case True
      with Cons.prems Inr show ?thesis by simp
    next
      case False
      with Cons.prems Inr obtain i' where i': "findIndex_id v ts = Inr (Some i')" "i = Suc i'"
        by (auto split: sum.splits option.splits)
      from Cons.IH[OF i'(1)] i'(2) Inr False show ?thesis
        by (auto simp: less_Suc_eq_0_disj)
    qed
  qed
qed

lemma findIndex_id_None:
  "findIndex_id v ts = Inr None \<Longrightarrow> \<forall>t\<in>set ts. \<exists>w. get_prop ''id'' t = Inr w \<and> \<not> strict_eq w v"
  by (induction ts) (auto split: sum.splits option.splits if_splits)

lemma filter_not_id_idem:
  "filter_not_id v ts = Inr r \<Longrightarrow> filter_not_id v r = Inr r \<and> findIndex_id v r = Inr None \<and> find_id v r = Inr None"
proof (induction ts arbitrary: r)
  case Nil
  then show ?case by simp
next
  case (Cons t ts)
  then show ?case
    by (auto split: sum.splits if_splits)
qed

lemma filter_not_id_subset:
  "filter_not_id v ts = Inr r \<Longrightarrow> set r \<subseteq> set ts \<and> (\<forall>t\<in>set ts. \<forall>w. get_prop ''id'' t = Inr w \<and> \<not> strict_eq w v \<longrightarrow> t \<in> set r)"
  by (induction ts arbitrary: r) (auto split: sum.splits if_splits)


lemma saveTaskToLocalStorage_result:
  assumes "getTasksFromLocalStorage s = JArr ts"
  shows "saveTaskToLocalStorage clk task s =
     (if truthy (map_of task ''id'')
      then (case findIndex_id (map_of task ''id'') ts of
              Inl e \<Rightarrow> Inl e
            | Inr r \<Rightarrow> Inr (task, s\<lparr>localStorage := (localStorage s)\<lparr>TASKS := Some (Serialized (JArr
                 (case r of Some i \<Rightarrow> ts[i := JObj (set_prop ''updatedAt'' (JStr (nowISO clk)) task)]
                          | None \<Rightarrow> ts @ [JObj (set_prop ''updatedAt'' (JStr (nowISO clk)) task)])))\<rparr>\<rparr>))
      else Inr (set_prop ''updatedAt'' (JStr (nowISO clk)) (set_prop ''createdAt'' (JStr (nowISO clk))
                  (set_prop ''id'' (JStr (''temp_'' @ decimal (nowMs clk))) task)),
                s\<lparr>localStorage := (localStorage s)\<lparr>TASKS := Some (Serialized (JArr
                  (ts @ [JObj (set_prop ''updatedAt'' (JStr (nowISO clk)) (set_prop ''createdAt'' (JStr (nowISO clk))
                  (set_prop ''id'' (JStr (''temp_'' @ decimal (nowMs clk))) task)))])))\<rparr>\<rparr>))"
  using assms
  by (simp add: saveTaskToLocalStorage_def Let_def split: sum.splits option.splits)

text \<open>
  C10. Let the stored tasks be an array. A task without a (truthy) id is stored at
  the end of the array and returned with the id \<open>temp_\<close> followed by the decimal
  timestamp, with \<open>createdAt\<close> and \<open>updatedAt\<close> set to the current time and every
  other property as given. A task with an id keeps it: the first stored entry with
  that id is replaced, or the task is appended when there is none; the stored copy
  has \<open>updatedAt\<close> set to the current time and every other property as given; the
  task is returned as it came.
\<close>

theorem saveTaskToLocalStorage_assigns_ids:
  assumes "getTasksFromLocalStorage s = JArr ts"
  shows "(\<not> truthy (map_of task ''id'') \<longrightarrow>
            (\<exists>newTask.
               saveTaskToLocalStorage clk task s =
                 Inr (newTask, s\<lparr>localStorage := (localStorage s)\<lparr>TASKS :=
                        Some (Serialized (JArr (ts @ [JObj newTask])))\<rparr>\<rparr>)
               \<and> map_of newTask ''id'' = Some (JStr (''temp_'' @ decimal (nowMs clk)))
               \<and> map_of newTask ''createdAt'' = Some (JStr (nowISO clk))
               \<and> map_of newTask ''updatedAt'' = Some (JStr (nowISO clk))
               \<and> (\<forall>k. k \<noteq> ''id'' \<and> k \<noteq> ''createdAt'' \<and> k \<noteq> ''updatedAt'' \<longrightarrow>
                      map_of newTask k = map_of task k)))
       \<and> (truthy (map_of task ''id'') \<and> findIndex_id (map_of task ''id'') ts = Inr r \<longrightarrow>
            (\<exists>updated.
               saveTaskToLocalStorage clk task s =
                 Inr (task, s\<lparr>localStorage := (localStorage s)\<lparr>TASKS :=
                        Some (Serialized (JArr (case r of Some i \<Rightarrow> ts[i := JObj updated]
                                                  | None \<Rightarrow> ts @ [JObj updated])))\<rparr>\<rparr>)
               \<and> map_of updated ''id'' = map_of task ''id''
               \<and> map_of updated ''updatedAt'' = Some (JStr (nowISO clk))
               \<and> (\<forall>k. k \<noteq> ''updatedAt'' \<longrightarrow> map_of updated k = map_of task k)
               \<and> (case r of
                     Some i \<Rightarrow> i < length ts
                        \<and> (\<exists>w. get_prop ''id'' (ts ! i) = Inr w \<and> strict_eq w (map_of task ''id''))
                        \<and> (\<forall>j<i. \<exists>w. get_prop ''id'' (ts ! j) = Inr w
                                     \<and> \<not> strict_eq w (map_of task ''id''))
                   | None \<Rightarrow> \<forall>t\<in>set ts. \<exists>w. get_prop ''id'' t = Inr w
                                     \<and> \<not> strict_eq w (map_of task ''id''))))"
proof (intro conjI impI)
  assume "\<not> truthy (map_of task ''id'')"
  then show "\<exists>newTask.
               saveTaskToLocalStorage clk task s =
                 Inr (newTask, s\<lparr>localStorage := (localStorage s)\<lparr>TASKS :=
                        Some (Serialized (JArr (ts @ [JObj newTask])))\<rparr>\<rparr>)
               \<and> map_of newTask ''id'' = Some (JStr (''temp_'' @ decimal (nowMs clk)))
               \<and> map_of newTask ''createdAt'' = Some (JStr (nowISO clk))
               \<and> map_of newTask ''updatedAt'' = Some (JStr (nowISO clk))
               \<and> (\<forall>k. k \<noteq> ''id'' \<and> k \<noteq> ''createdAt'' \<and> k \<noteq> ''updatedAt'' \<longrightarrow>
                      map_of newTask k = map_of task k)"
    by (simp add: saveTaskToLocalStorage_result[OF assms] map_of_set_prop)
next
  assume a: "truthy (map_of task ''id'') \<and> findIndex_id (map_of task ''id'') ts = Inr r"
  let ?u = "set_prop ''updatedAt'' (JStr (nowISO clk)) task"
  have 1: "saveTaskToLocalStorage clk task s =
                 Inr (task, s\<lparr>localStorage := (localStorage s)\<lparr>TASKS :=
                        Some (Serialized (JArr (case r of Some i \<Rightarrow> ts[i := JObj ?u]
                                                  | None \<Rightarrow> ts @ [JObj ?u])))\<rparr>\<rparr>)"
    using a by (simp add: saveTaskToLocalStorage_result[OF assms])
  have 2: "case r of
                     Some i \<Rightarrow> i < length ts
                        \<and> (\<exists>w. get_prop ''id'' (ts ! i) = Inr w \<and> strict_eq w (map_of task ''id''))
                        \<and> (\<forall>j<i. \<exists>w. get_prop ''id'' (ts ! j) = Inr w
                                     \<and> \<not> strict_eq w (map_of task ''id''))
                   | None \<Rightarrow> \<forall>t\<in>set ts. \<exists>w. get_prop ''id'' t = Inr w
                                     \<and> \<not> strict_eq w (map_of task ''id'')"
  proof (cases r)
    case None
    with a findIndex_id_None[of "map_of task ''id''" ts] show ?thesis by simp
  next
    case (Some i)
    with a findIndex_id_Some[of "map_of task ''id''" ts i] show ?thesis by simp
  qed
  show "\<exists>updated.
               saveTaskToLocalStorage clk task s =
                 Inr (task, s\<lparr>localStorage := (localStorage s)\<lparr>TASKS :=
                        Some (Serialized (JArr (case r of Some i \<Rightarrow> ts[i := JObj updated]
                                                  | None \<Rightarrow> ts @ [JObj updated])))\<rparr>\<rparr>)
               \<and> map_of updated ''id'' = map_of task ''id''
               \<and> map_of updated ''updatedAt'' = Some (JStr (nowISO clk))
               \<and> (\<forall>k. k \<noteq> ''updatedAt'' \<longrightarrow> map_of updated k = map_of task k)
               \<and> (case r of
                     Some i \<Rightarrow> i < length ts
                        \<and> (\<exists>w. get_prop ''id'' (ts ! i) = Inr w \<and> strict_eq w (map_of task ''id''))
                        \<and> (\<forall>j<i. \<exists>w. get_prop ''id'' (ts ! j) = Inr w
                                     \<and> \<not> strict_eq w (map_of task ''id''))
                   | None \<Rightarrow> \<forall>t\<in>set ts. \<exists>w. get_prop ''id'' t = Inr w
                                     \<and> \<not> strict_eq w (map_of task ''id''))"
    by (rule exI[of _ ?u]) (use 1 2 in \<open>simp add: map_of_set_prop\<close>)
qed


theorem saveTaskToLocalStorage_assigns_ids_witness:
  "getTasksFromLocalStorage with_rent = JArr [JObj old_rent]
   \<and> \<not> truthy (map_of buy_milk ''id'')
   \<and> saveTaskToLocalStorage noon buy_milk with_rent =
       Inr (buy_milk @ [(''id'', JStr ''temp_1715342400000''),
                        (''createdAt'', JStr ''2024-05-10T12:00:00.000Z''),
                        (''updatedAt'', JStr ''2024-05-10T12:00:00.000Z'')],
            with_rent\<lparr>localStorage := empty_storage\<lparr>TASKS := Some (Serialized (JArr
              [JObj old_rent,
               JObj (buy_milk @ [(''id'', JStr ''temp_1715342400000''),
                                 (''createdAt'', JStr ''2024-05-10T12:00:00.000Z''),
                                 (''updatedAt'', JStr ''2024-05-10T12:00:00.000Z'')])]))\<rparr>\<rparr>)
   \<and> truthy (map_of pay_rent ''id'')
   \<and> findIndex_id (map_of pay_rent ''id'') [JObj old_rent] = Inr (Some 0)
   \<and> saveTaskToLocalStorage noon pay_rent with_rent =
       Inr (pay_rent,
            with_rent\<lparr>localStorage := empty_storage\<lparr>TASKS := Some (Serialized (JArr
              [JObj (pay_rent @ [(''updatedAt'', JStr ''2024-05-10T12:00:00.000Z'')])]))\<rparr>\<rparr>)"
proof -
  have g: "getTasksFromLocalStorage with_rent = JArr [JObj old_rent]"
    by (simp add: getTasksFromLocalStorage_def with_rent_def parse_or_def empty_storage_def)
  have n: "\<not> truthy (map_of buy_milk ''id'')" by (simp add: buy_milk_def)
  have t: "truthy (map_of pay_rent ''id'')" by (simp add: pay_rent_def)
  have f: "findIndex_id (map_of pay_rent ''id'') [JObj old_rent] = Inr (Some 0)"
    by (simp add: pay_rent_def old_rent_def)
  have e1: "saveTaskToLocalStorage noon buy_milk with_rent =
       Inr (buy_milk @ [(''id'', JStr ''temp_1715342400000''),
                        (''createdAt'', JStr ''2024-05-10T12:00:00.000Z''),
                        (''updatedAt'', JStr ''2024-05-10T12:00:00.000Z'')],
            with_rent\<lparr>localStorage := empty_storage\<lparr>TASKS := Some (Serialized (JArr
              [JObj old_rent,
               JObj (buy_milk @ [(''id'', JStr ''temp_1715342400000''),
                                 (''createdAt'', JStr ''2024-05-10T12:00:00.000Z''),
                                 (''updatedAt'', JStr ''2024-05-10T12:00:00.000Z'')])]))\<rparr>\<rparr>)"
    by (subst saveTaskToLocalStorage_result[OF g])
       (simp add: buy_milk_def noon_def decimal_noon with_rent_def empty_storage_def)
  have e2: "saveTaskToLocalStorage noon pay_rent with_rent =
       Inr (pay_rent,
            with_rent\<lparr>localStorage := empty_storage\<lparr>TASKS := Some (Serialized (JArr
              [JObj (pay_rent @ [(''updatedAt'', JStr ''2024-05-10T12:00:00.000Z'')])]))\<rparr>\<rparr>)"
    by (subst saveTaskToLocalStorage_result[OF g])
       (simp add: pay_rent_def old_rent_def noon_def with_rent_def empty_storage_def)
  note th1 = saveTaskToLocalStorage_assigns_ids [OF g, of buy_milk noon "Some 0"]
  note th2 = saveTaskToLocalStorage_assigns_ids [OF g, of pay_rent noon "Some 0"]
  from th1 th2 g n e1 t f e2 show ?thesis
    by - (intro conjI; assumption)
qed

lemma saveTaskToLocalStorage_frame:
  assumes "saveTaskToLocalStorage clk t s = Inr (t', s')"
  shows "s' = s\<lparr>localStorage := (localStorage s)\<lparr>TASKS := TASKS (localStorage s')\<rparr>\<rparr>"
proof (cases "getTasksFromLocalStorage s")
  case (JArr ts)
  from assms show ?thesis
    unfolding saveTaskToLocalStorage_result[OF JArr]
    by (auto split: if_splits sum.splits)
qed (use assms in \<open>auto simp: saveTaskToLocalStorage_def Let_def split: if_splits\<close>)

lemma getTasks_cong:
  "TASKS (localStorage s) = TASKS (localStorage s') \<Longrightarrow> getTasksFromLocalStorage s = getTasksFromLocalStorage s'"
  by (simp add: getTasksFromLocalStorage_def)

lemma saveTaskToLocalStorage_after_enqueue:
  assumes "saveTaskToLocalStorage clk t s = Inr (t', s')"
  shows "saveTaskToLocalStorage clk t (addPendingOperation c ep opts s) = Inr (t', addPendingOperation c ep opts s')"
proof (cases "getTasksFromLocalStorage s")
  case (JArr ts)
  have g: "getTasksFromLocalStorage (addPendingOperation c ep opts s) = JArr ts"
    using JArr by (simp add: getTasksFromLocalStorage_def addPendingOperation_def Let_def)
  from assms show ?thesis
    unfolding saveTaskToLocalStorage_result[OF JArr] saveTaskToLocalStorage_result[OF g]
    by (auto simp: addPendingOperation_def Let_def split: if_splits sum.splits)
qed (use assms in \<open>auto simp: saveTaskToLocalStorage_def Let_def split: if_splits\<close>)

lemma saveTaskToLocalStorage_contains:
  assumes "saveTaskToLocalStorage clk t s = Inr (t', s')"
  shows "\<exists>ts' x. getTasksFromLocalStorage s' = JArr ts' \<and> JObj x \<in> set ts'
           \<and> (\<forall>k. k \<noteq> ''id'' \<and> k \<noteq> ''createdAt'' \<and> k \<noteq> ''updatedAt'' \<longrightarrow> map_of x k = map_of t k)
           \<and> (truthy (map_of t ''id'') \<longrightarrow> map_of x ''id'' = map_of t ''id'')"
proof (cases "getTasksFromLocalStorage s")
  case (JArr ts)
  show ?thesis
  proof (cases "truthy (map_of t ''id'')")
    case False
    let ?n = "set_prop ''updatedAt'' (JStr (nowISO clk)) (set_prop ''createdAt'' (JStr (nowISO clk))
                  (set_prop ''id'' (JStr (''temp_'' @ decimal (nowMs clk))) t))"
    from False assms have "getTasksFromLocalStorage s' = JArr (ts @ [JObj ?n])"
      unfolding saveTaskToLocalStorage_result[OF JArr]
      by (auto simp: getTasksFromLocalStorage_def parse_or_def)
    with False show ?thesis
      by (intro exI[of _ "ts @ [JObj ?n]"] exI[of _ ?n]) (simp add: map_of_set_prop)
  next
    case True
    with assms obtain r where r: "findIndex_id (map_of t ''id'') ts = Inr r"
      unfolding saveTaskToLocalStorage_result[OF JArr] by (auto split: sum.splits)
    let ?u = "set_prop ''updatedAt'' (JStr (nowISO clk)) t"
    have "getTasksFromLocalStorage s' = JArr (case r of Some i \<Rightarrow> ts[i := JObj ?u] | None \<Rightarrow> ts @ [JObj ?u])"
      using assms True r unfolding saveTaskToLocalStorage_result[OF JArr]
      by (auto simp: getTasksFromLocalStorage_def parse_or_def)
    moreover have "JObj ?u \<in> set (case r of Some i \<Rightarrow> ts[i := JObj ?u] | None \<Rightarrow> ts @ [JObj ?u])"
      using findIndex_id_Some[of "map_of t ''id''" ts] r
      by (auto split: option.splits simp: set_update_memI)
    ultimately show ?thesis
      by (intro exI[of _ "case r of Some i \<Rightarrow> ts[i := JObj ?u] | None \<Rightarrow> ts @ [JObj ?u]"] exI[of _ ?u])
         (simp add: map_of_set_prop)
  qed
qed (use assms in \<open>auto simp: saveTaskToLocalStorage_def Let_def split: if_splits\<close>)


lemma syncPendingOperations_all_ok:
  assumes "parse_or (PENDING_OPS (localStorage s)) (pendingOperations s) = Inr q"
    and "q \<noteq> []" and "\<forall>i. net i \<noteq> None"
  shows "syncPendingOperations net clk s =
           Some (s\<lparr>pendingOperations := [],
                   localStorage := (localStorage s)\<lparr>PENDING_OPS := None\<rparr>\<rparr>, q)"
proof -
  have flt: "filter (\<lambda>j. net j \<noteq> None) [0..<length q] = [0..<length q]"
    using assms(3) by simp
  have h: "\<forall>j. j < length q \<and> net j = None \<longrightarrow>
           \<not> isOnline s \<or> http_method (options (q ! j)) = Some ''GET''"
    using assms(3) by blast
  show ?thesis
    using assms(2) by (simp only: syncPendingOperations_quiet[OF assms(1) h] flt map_nth if_False)
qed

text \<open>
  C9. Let the manager be online, let the request of \<open>saveTask\<close> fail, and let the
  local save of the task succeed. Then the call records the write twice: the
  operation is appended to the queue and persisted (by \<open>makeApiRequest\<close>), and the
  task is written to the local store (by the \<open>catch\<close> block). A later drain on
  which every request succeeds sends that operation to the remote, while the record
  written by the failed call is still in the local store.
\<close>

theorem saveTask_online_failure_writes_twice:
  assumes "isOnline s"
    and "saveTaskToLocalStorage clk task s = Inr (t, sl)"
    and "operation =
           \<lparr>endpoint = ''/tasks'',
            options = \<lparr>http_method = Some (if truthy (map_of task ''id'') then ''PUT'' else ''POST''),
                       headers = None, body = Some (JObj task)\<rparr>,
            timestamp = nowMs clk\<rparr>"
    and "\<forall>i. net i \<noteq> None"
  shows "\<exists>s'. saveTask None clk task s = (Inr (JObj t), s')
           \<and> pendingOperations s' = pendingOperations s @ [operation]
           \<and> PENDING_OPS (localStorage s') = Some (Serialized (pendingOperations s @ [operation]))
           \<and> TASKS (localStorage s') = TASKS (localStorage sl)
           \<and> (\<exists>ts' x. getTasksFromLocalStorage s' = JArr ts' \<and> JObj x \<in> set ts'
                  \<and> (\<forall>k. k \<noteq> ''id'' \<and> k \<noteq> ''createdAt'' \<and> k \<noteq> ''updatedAt'' \<longrightarrow>
                         map_of x k = map_of task k)
                  \<and> (truthy (map_of task ''id'') \<longrightarrow> map_of x ''id'' = map_of task ''id''))
           \<and> (\<exists>s''. syncPendingOperations net clk' s' = Some (s'', pendingOperations s @ [operation])
                  \<and> getTasksFromLocalStorage s'' = getTasksFromLocalStorage s')"
proof -
  let ?opts = "\<lparr>http_method = Some (if truthy (map_of task ''id'') then ''PUT'' else ''POST''),
                headers = None, body = Some (JObj task)\<rparr>"
  let ?s' = "addPendingOperation clk ''/tasks'' ?opts sl"
  have m: "makeApiRequest None clk ''/tasks'' ?opts s = (Inl ApiError, addPendingOperation clk ''/tasks'' ?opts s)"
    using assms(1) by (simp add: makeApiRequest_def)
  have sv: "saveTask None clk task s = (Inr (JObj t), ?s')"
    using assms(1) m saveTaskToLocalStorage_after_enqueue[OF assms(2), of clk "''/tasks''" ?opts]
    by (simp add: saveTask_def Let_def)
  have fr: "sl = s\<lparr>localStorage := (localStorage s)\<lparr>TASKS := TASKS (localStorage sl)\<rparr>\<rparr>"
    by (rule saveTaskToLocalStorage_frame[OF assms(2)])
  have pq: "pendingOperations sl = pendingOperations s"
    by (subst fr) simp
  have q: "pendingOperations ?s' = pendingOperations s @ [operation]"
    using pq assms(3) by (simp add: addPendingOperation_def Let_def)
  have p: "PENDING_OPS (localStorage ?s') = Some (Serialized (pendingOperations s @ [operation]))"
    using pq assms(3) by (simp add: addPendingOperation_def Let_def)
  have tk: "TASKS (localStorage ?s') = TASKS (localStorage sl)"
    by (simp add: addPendingOperation_def Let_def)
  have c: "\<exists>ts' x. getTasksFromLocalStorage ?s' = JArr ts' \<and> JObj x \<in> set ts'
                  \<and> (\<forall>k. k \<noteq> ''id'' \<and> k \<noteq> ''createdAt'' \<and> k \<noteq> ''updatedAt'' \<longrightarrow>
                         map_of x k = map_of task k)
                  \<and> (truthy (map_of task ''id'') \<longrightarrow> map_of x ''id'' = map_of task ''id'')"
    using saveTaskToLocalStorage_contains[OF assms(2)] getTasks_cong[OF tk] by simp
  have po: "parse_or (PENDING_OPS (localStorage ?s')) (pendingOperations ?s') = Inr (pendingOperations s @ [operation])"
    using p by (simp add: parse_or_def)
  have sy: "syncPendingOperations net clk' ?s' =
          Some (?s'\<lparr>pendingOperations := [], localStorage := (localStorage ?s')\<lparr>PENDING_OPS := None\<rparr>\<rparr>,
                pendingOperations s @ [operation])"
    by (rule syncPendingOperations_all_ok[OF po _ assms(4)]) simp
  have g2: "getTasksFromLocalStorage (?s'\<lparr>pendingOperations := [], localStorage := (localStorage ?s')\<lparr>PENDING_OPS := None\<rparr>\<rparr>)
            = getTasksFromLocalStorage ?s'"
    by (rule getTasks_cong) simp
  have last: "\<exists>s''. syncPendingOperations net clk' ?s' = Some (s'', pendingOperations s @ [operation])
                  \<and> getTasksFromLocalStorage s'' = getTasksFromLocalStorage ?s'"
    by (rule exI, rule conjI, rule sy, rule g2)
  show ?thesis
    by (rule exI[of _ ?s']) (intro conjI sv q p tk c last)
qed

theorem saveTask_online_failure_writes_twice_witness:
  "isOnline online_with_rent
   \<and> saveTaskToLocalStorage noon buy_milk online_with_rent =
       Inr (milk_saved,
            online_with_rent\<lparr>localStorage := empty_storage\<lparr>TASKS := Some (Serialized (JArr
              [JObj old_rent, JObj milk_saved]))\<rparr>\<rparr>)
   \<and> saveTask None noon buy_milk online_with_rent = (Inr (JObj milk_saved), after_failed_save)
   \<and> pendingOperations after_failed_save = [op_create]
   \<and> PENDING_OPS (localStorage after_failed_save) = Some (Serialized [op_create])
   \<and> syncPendingOperations always_ok later after_failed_save = Some (after_drain, [op_create])
   \<and> getTasksFromLocalStorage after_drain = JArr [JObj old_rent, JObj milk_saved]"
proof -
  have g: "getTasksFromLocalStorage online_with_rent = JArr [JObj old_rent]"
    by (simp add: getTasksFromLocalStorage_def online_with_rent_def parse_or_def empty_storage_def)
  have h1: "isOnline online_with_rent" by (simp add: online_with_rent_def)
  have h2: "saveTaskToLocalStorage noon buy_milk online_with_rent =
       Inr (milk_saved,
            online_with_rent\<lparr>localStorage := empty_storage\<lparr>TASKS := Some (Serialized (JArr
              [JObj old_rent, JObj milk_saved]))\<rparr>\<rparr>)"
    by (subst saveTaskToLocalStorage_result[OF g])
       (simp add: buy_milk_def milk_saved_def noon_def decimal_noon online_with_rent_def
          empty_storage_def)
  have h3: "op_create =
           \<lparr>endpoint = ''/tasks'',
            options = \<lparr>http_method = Some (if truthy (map_of buy_milk ''id'') then ''PUT'' else ''POST''),
                       headers = None, body = Some (JObj buy_milk)\<rparr>,
            timestamp = nowMs noon\<rparr>"
    by (simp add: op_create_def buy_milk_def noon_def)
  have h4: "\<forall>i. always_ok i \<noteq> None" by (simp add: always_ok_def)
  note th = saveTask_online_failure_writes_twice [OF h1 h2 h3 h4, of later]
  have tr: "truthy (map_of buy_milk ''id'') = False" by (simp add: buy_milk_def)
  have m: "makeApiRequest None noon ''/tasks''
             \<lparr>http_method = Some ''POST'', headers = None, body = Some (JObj buy_milk)\<rparr> online_with_rent =
           (Inl ApiError, addPendingOperation noon ''/tasks''
             \<lparr>http_method = Some ''POST'', headers = None, body = Some (JObj buy_milk)\<rparr> online_with_rent)"
    using h1 by (simp add: makeApiRequest_def)
  have a: "addPendingOperation noon ''/tasks''
             \<lparr>http_method = Some ''POST'', headers = None, body = Some (JObj buy_milk)\<rparr>
             (online_with_rent\<lparr>localStorage := empty_storage\<lparr>TASKS := Some (Serialized (JArr
                [JObj old_rent, JObj milk_saved]))\<rparr>\<rparr>) = after_failed_save"
    by (simp add: addPendingOperation_def after_failed_save_def online_with_rent_def
          empty_storage_def op_create_def noon_def Let_def)
  have e: "saveTask None noon buy_milk online_with_rent = (Inr (JObj milk_saved), after_failed_save)"
    by (simp only: saveTask_def Let_def h1 if_True tr if_False m fst_conv snd_conv sum.case
          saveTaskToLocalStorage_after_enqueue[OF h2] prod.case a)
  have q: "pendingOperations after_failed_save = [op_create]"
    by (simp add: after_failed_save_def)
  have p: "PENDING_OPS (localStorage after_failed_save) = Some (Serialized [op_create])"
    by (simp add: after_failed_save_def empty_storage_def)
  have po: "parse_or (PENDING_OPS (localStorage after_failed_save)) (pendingOperations after_failed_save) = Inr [op_create]"
    by (simp add: p parse_or_def)
  have d: "after_failed_save\<lparr>pendingOperations := [],
             localStorage := (localStorage after_failed_save)\<lparr>PENDING_OPS := None\<rparr>\<rparr> = after_drain"
    by (simp add: after_failed_save_def after_drain_def empty_storage_def)
  have sy: "syncPendingOperations always_ok later after_failed_save = Some (after_drain, [op_create])"
    using syncPendingOperations_all_ok[OF po _ h4, of later] d by simp
  have gt: "getTasksFromLocalStorage after_drain = JArr [JObj old_rent, JObj milk_saved]"
    by (simp add: getTasksFromLocalStorage_def after_drain_def parse_or_def empty_storage_def)
  from th h1 h2 e q p sy gt show ?thesis
    by - (intro conjI; assumption)
qed

text \<open>
  Offline, \<open>saveTask\<close> never touches the queue, while \<open>saveExpense\<close> appends the
  operation after its local save.
\<close>

lemma offline_saveTask_queue_unchanged:
  assumes "\<not> isOnline s"
  shows "pendingOperations (snd (saveTask resp clk t s)) = pendingOperations s
       \<and> PENDING_OPS (localStorage (snd (saveTask resp clk t s))) = PENDING_OPS (localStorage s)"
proof (cases "saveTaskToLocalStorage clk t s")
  case (Inl e)
  with assms show ?thesis by (simp add: saveTask_def)
next
  case (Inr p)
  obtain t' s' where p: "p = (t', s')" by (cases p)
  have fr: "s' = s\<lparr>localStorage := (localStorage s)\<lparr>TASKS := TASKS (localStorage s')\<rparr>\<rparr>"
    using Inr p by (auto dest: saveTaskToLocalStorage_frame)
  have "pendingOperations s' = pendingOperations s"
    by (subst fr) simp
  moreover have "PENDING_OPS (localStorage s') = PENDING_OPS (localStorage s)"
    by (subst fr) simp
  ultimately have "pendingOperations s' = pendingOperations s
           \<and> PENDING_OPS (localStorage s') = PENDING_OPS (localStorage s)"
    by simp
  with Inr p assms show ?thesis by (simp add: saveTask_def)
qed

lemma offline_saveExpense_is_queued:
  assumes "\<not> isOnline s" and "saveExpenseToLocalStorage clk x s = Inr (saved, s1)"
  shows "\<exists>ep opts. snd (saveExpense render resp clk x s) = addPendingOperation clk ep opts s1
           \<and> pendingOperations (snd (saveExpense render resp clk x s)) =
               pendingOperations s1 @ [\<lparr>endpoint = ep, options = opts, timestamp = nowMs clk\<rparr>]"
  using assms by (simp add: saveExpense_def Let_def addPendingOperation_def)

subsection \<open>Export and import\<close>

lemma records_truthy: "records (if truthy (Some v) then v else JArr []) = records v"
  by (cases v) auto

lemma entries_truthy: "entries (if truthy (Some v) then v else JObj []) = entries v"
  by (cases v) auto

lemma item_value_parse:
  "(case parse_or item dflt of Inl e \<Rightarrow> dflt | Inr v \<Rightarrow> v) = item_value item dflt"
  by (auto simp: parse_or_def item_value_def split: option.splits stored.splits)

lemma round_trip_result:
  "round_trip clk s =
     Inr (s\<lparr>localStorage :=
             \<lparr>TASKS = item_restored (TASKS (localStorage s)) (JArr []),
              SETTINGS = item_restored (SETTINGS (localStorage s)) (JObj []),
              STATISTICS = item_restored (STATISTICS (localStorage s)) (JArr []),
              EXPENSES = None, PENDING_OPS = None\<rparr>\<rparr>)"
  by (simp add: round_trip_def importDataToLocalStorage_def exportDataFromLocalStorage_def
        clearLocalStorageData_def getTasksFromLocalStorage_def getSettingsFromLocalStorage_def
        getStatisticsFromLocalStorage_def item_value_parse item_restored_def Let_def)

lemma item_restored_value:
  "item_value (item_restored item dflt) dflt =
     (if truthy (Some (item_value item dflt)) then item_value item dflt else dflt)"
  by (simp add: item_restored_def item_value_def)

text \<open>
  An item that holds a truthy collection, which is all the manager ever writes, is
  after the round trip the very item it was.
\<close>

lemma item_restored_same:
  "truthy (Some v) \<Longrightarrow> item_restored (Some (Serialized v)) dflt = Some (Serialized v)"
  by (simp add: item_restored_def item_value_def)

text \<open>
  C5 (amended). For every store state, \<open>exportDataFromLocalStorage\<close> yields the
  document with exactly the properties \<open>version\<close>, \<open>exportDate\<close>, \<open>tasks\<close>, \<open>settings\<close>
  and \<open>statistics\<close>, holding the stored tasks, settings and statistics. Importing it
  into the cleared store succeeds; afterwards the items of the tasks, the settings
  and the statistics hold the collections they held before (a collection value that
  is falsy is not written back and reads as the empty collection, with the same
  records: none), so the task records come back with their titles, categories and
  ids. The expenses and the pending operations are not in the document: their items
  are removed and not restored, and the expenses read as empty afterwards.
\<close>

theorem export_import_round_trip:
  "exportDataFromLocalStorage clk s =
     JObj [(''version'', JStr ''1.0''),
           (''exportDate'', JStr (nowISO clk)),
           (''tasks'', item_value (TASKS (localStorage s)) (JArr [])),
           (''settings'', item_value (SETTINGS (localStorage s)) (JObj [])),
           (''statistics'', item_value (STATISTICS (localStorage s)) (JArr []))]
   \<and> (\<exists>s'. round_trip clk s = Inr s'
         \<and> isOnline s' = isOnline s
         \<and> pendingOperations s' = pendingOperations s
         \<and> TASKS (localStorage s') = item_restored (TASKS (localStorage s)) (JArr [])
         \<and> SETTINGS (localStorage s') = item_restored (SETTINGS (localStorage s)) (JObj [])
         \<and> STATISTICS (localStorage s') = item_restored (STATISTICS (localStorage s)) (JArr [])
         \<and> EXPENSES (localStorage s') = None
         \<and> PENDING_OPS (localStorage s') = None
         \<and> getTasksFromLocalStorage s' =
             (if truthy (Some (getTasksFromLocalStorage s)) then getTasksFromLocalStorage s
              else JArr [])
         \<and> getSettingsFromLocalStorage s' =
             (if truthy (Some (getSettingsFromLocalStorage s)) then getSettingsFromLocalStorage s
              else JObj [])
         \<and> getStatisticsFromLocalStorage s' =
             (if truthy (Some (getStatisticsFromLocalStorage s))
              then getStatisticsFromLocalStorage s else JArr [])
         \<and> records (getTasksFromLocalStorage s') = records (getTasksFromLocalStorage s)
         \<and> entries (getSettingsFromLocalStorage s') = entries (getSettingsFromLocalStorage s)
         \<and> records (getStatisticsFromLocalStorage s') = records (getStatisticsFromLocalStorage s)
         \<and> map (get_prop ''title'') (records (getTasksFromLocalStorage s')) =
             map (get_prop ''title'') (records (getTasksFromLocalStorage s))
         \<and> map (get_prop ''category'') (records (getTasksFromLocalStorage s')) =
             map (get_prop ''category'') (records (getTasksFromLocalStorage s))
         \<and> map (get_prop ''id'') (records (getTasksFromLocalStorage s')) =
             map (get_prop ''id'') (records (getTasksFromLocalStorage s))
         \<and> getExpensesFromLocalStorage s' = JArr [])"
proof -
  let ?s' = "s\<lparr>localStorage :=
               \<lparr>TASKS = item_restored (TASKS (localStorage s)) (JArr []),
                SETTINGS = item_restored (SETTINGS (localStorage s)) (JObj []),
                STATISTICS = item_restored (STATISTICS (localStorage s)) (JArr []),
                EXPENSES = None, PENDING_OPS = None\<rparr>\<rparr>"
  have doc: "exportDataFromLocalStorage clk s =
     JObj [(''version'', JStr ''1.0''),
           (''exportDate'', JStr (nowISO clk)),
           (''tasks'', item_value (TASKS (localStorage s)) (JArr [])),
           (''settings'', item_value (SETTINGS (localStorage s)) (JObj [])),
           (''statistics'', item_value (STATISTICS (localStorage s)) (JArr []))]"
    by (simp add: exportDataFromLocalStorage_def getTasksFromLocalStorage_def
          getSettingsFromLocalStorage_def getStatisticsFromLocalStorage_def item_value_parse)
  have gt: "getTasksFromLocalStorage x = item_value (TASKS (localStorage x)) (JArr [])" for x
    by (simp add: getTasksFromLocalStorage_def item_value_parse)
  have gs: "getSettingsFromLocalStorage x = item_value (SETTINGS (localStorage x)) (JObj [])" for x
    by (simp add: getSettingsFromLocalStorage_def item_value_parse)
  have gc: "getStatisticsFromLocalStorage x = item_value (STATISTICS (localStorage x)) (JArr [])" for x
    by (simp add: getStatisticsFromLocalStorage_def item_value_parse)
  have t: "getTasksFromLocalStorage ?s' =
             (if truthy (Some (getTasksFromLocalStorage s)) then getTasksFromLocalStorage s
              else JArr [])"
    by (simp add: gt item_restored_value)
  have st: "getSettingsFromLocalStorage ?s' =
             (if truthy (Some (getSettingsFromLocalStorage s)) then getSettingsFromLocalStorage s
              else JObj [])"
    by (simp add: gs item_restored_value)
  have sc: "getStatisticsFromLocalStorage ?s' =
             (if truthy (Some (getStatisticsFromLocalStorage s))
              then getStatisticsFromLocalStorage s else JArr [])"
    by (simp add: gc item_restored_value)
  have r1: "records (getTasksFromLocalStorage ?s') = records (getTasksFromLocalStorage s)"
    by (simp only: t records_truthy)
  have r2: "entries (getSettingsFromLocalStorage ?s') = entries (getSettingsFromLocalStorage s)"
    by (simp only: st entries_truthy)
  have r3: "records (getStatisticsFromLocalStorage ?s') = records (getStatisticsFromLocalStorage s)"
    by (simp only: sc records_truthy)
  have ex: "getExpensesFromLocalStorage ?s' = JArr []"
    by (simp add: getExpensesFromLocalStorage_def parse_or_def)
  show ?thesis
    apply (rule conjI[OF doc])
    apply (rule exI[of _ ?s'])
    using round_trip_result[of clk s] t st sc r1 r2 r3 ex by simp
qed

text \<open>
  C5 as stated fails on a store that holds an expense: the export document has no
  property for the expenses, clearing removes their item and the import does not
  write it, so after the round trip the expense and its amount are gone, while the
  task is back.
\<close>

theorem round_trip_loses_expenses_counterexample:
  "getTasksFromLocalStorage with_expense = JArr [JObj old_rent]
   \<and> getExpensesFromLocalStorage with_expense = JArr [JObj lunch]
   \<and> map (get_prop ''amount'') (records (getExpensesFromLocalStorage with_expense)) =
       [Inr (Some (JNum 12))]
   \<and> exportDataFromLocalStorage noon with_expense =
       JObj [(''version'', JStr ''1.0''),
             (''exportDate'', JStr ''2024-05-10T12:00:00.000Z''),
             (''tasks'', JArr [JObj old_rent]),
             (''settings'', JObj []),
             (''statistics'', JArr [])]
   \<and> round_trip noon with_expense = Inr expense_lost
   \<and> getTasksFromLocalStorage expense_lost = JArr [JObj old_rent]
   \<and> EXPENSES (localStorage expense_lost) = None
   \<and> getExpensesFromLocalStorage expense_lost = JArr []
   \<and> map (get_prop ''amount'') (records (getExpensesFromLocalStorage expense_lost)) = []
   \<and> records (getExpensesFromLocalStorage expense_lost) \<noteq>
       records (getExpensesFromLocalStorage with_expense)"
proof -
  have g: "getTasksFromLocalStorage with_expense = JArr [JObj old_rent]"
    by (simp add: getTasksFromLocalStorage_def with_expense_def empty_storage_def parse_or_def)
  have e: "getExpensesFromLocalStorage with_expense = JArr [JObj lunch]"
    by (simp add: getExpensesFromLocalStorage_def with_expense_def empty_storage_def parse_or_def)
  have gs: "getSettingsFromLocalStorage with_expense = JObj []"
    by (simp add: getSettingsFromLocalStorage_def with_expense_def empty_storage_def parse_or_def)
  have gc: "getStatisticsFromLocalStorage with_expense = JArr []"
    by (simp add: getStatisticsFromLocalStorage_def with_expense_def empty_storage_def
          parse_or_def)
  have a: "map (get_prop ''amount'') (records (getExpensesFromLocalStorage with_expense)) =
             [Inr (Some (JNum 12))]"
    by (simp add: e lunch_def)
  have d: "exportDataFromLocalStorage noon with_expense =
       JObj [(''version'', JStr ''1.0''),
             (''exportDate'', JStr ''2024-05-10T12:00:00.000Z''),
             (''tasks'', JArr [JObj old_rent]),
             (''settings'', JObj []),
             (''statistics'', JArr [])]"
    by (simp add: exportDataFromLocalStorage_def g gs gc noon_def)
  have r: "round_trip noon with_expense = Inr expense_lost"
    unfolding round_trip_def d
    by (simp add: importDataToLocalStorage_def clearLocalStorageData_def with_expense_def
          expense_lost_def empty_storage_def Let_def)
  have g': "getTasksFromLocalStorage expense_lost = JArr [JObj old_rent]"
    by (simp add: getTasksFromLocalStorage_def expense_lost_def parse_or_def)
  have x: "EXPENSES (localStorage expense_lost) = None"
    by (simp add: expense_lost_def)
  have e': "getExpensesFromLocalStorage expense_lost = JArr []"
    by (simp add: getExpensesFromLocalStorage_def x parse_or_def)
  from g e a d r g' x e' show ?thesis by simp
qed

subsection \<open>Deleting twice\<close>

lemma getAllTasks_fallback:
  "\<not> (isIndexedDBAvailable sm \<and> db sm \<noteq> None) \<Longrightarrow>
     StorageManager_getAllTasks fault sm =
       (case parse_or (items sm storageKeys_TASKS) (JArr []) of Inl e \<Rightarrow> Inr (JArr []) | Inr v \<Rightarrow> Inr v)"
  by (cases "isIndexedDBAvailable sm"; cases "db sm") (simp_all add: StorageManager_getAllTasks_def)

lemma StorageManager_delete_twice:
  assumes "StorageManager_deleteTask None v sm = (Inr b, sm1)"
  shows "StorageManager_deleteTask None v sm1 = (Inr True, sm1) \<and> StorageManager_getTask None v sm1 = Inr None"
proof (cases "isIndexedDBAvailable sm \<and> db sm \<noteq> None")
  case True
  then obtain d where d: "isIndexedDBAvailable sm" "db sm = Some d" by auto
  with assms obtain k where k: "v = Some k" "valid_key k"
    and sm1: "sm1 = sm\<lparr>db := Some (d\<lparr>tasks_store := filter (\<lambda>kr. fst kr \<noteq> k) (tasks_store d)\<rparr>)\<rparr>"
    by (auto simp: StorageManager_deleteTask_def split: option.splits if_splits)
  have "map_of (filter (\<lambda>kr. fst kr \<noteq> k) (tasks_store d)) k = None"
    by (simp add: map_of_eq_None_iff image_iff)
  then show ?thesis
    using d k by (simp add: sm1 StorageManager_deleteTask_def StorageManager_getTask_def)
next
  case False
  note ga = getAllTasks_fallback[OF False]
  have nb: "(case (isIndexedDBAvailable sm, db sm) of (True, Some d) \<Rightarrow> X d | _ \<Rightarrow> Y) = Y" for X :: "idb \<Rightarrow> 'x" and Y
    using False by (cases "isIndexedDBAvailable sm"; cases "db sm") simp_all
  from assms obtain ts r where ts: "StorageManager_getAllTasks None sm = Inr (JArr ts)"
    and r: "filter_not_id v ts = Inr r"
    and sm1: "sm1 = sm\<lparr>items := (items sm)(storageKeys_TASKS \<mapsto> Serialized (JArr r))\<rparr>"
    unfolding StorageManager_deleteTask_def nb
    by (auto split: sum.splits json.splits)
  have F1: "\<not> (isIndexedDBAvailable sm1 \<and> db sm1 \<noteq> None)" using False by (simp add: sm1)
  have nb1: "(case (isIndexedDBAvailable sm1, db sm1) of (True, Some d) \<Rightarrow> X d | _ \<Rightarrow> Y) = Y" for X :: "idb \<Rightarrow> 'x" and Y
    using F1 by (cases "isIndexedDBAvailable sm1"; cases "db sm1") simp_all
  have g1: "StorageManager_getAllTasks None sm1 = Inr (JArr r)"
    by (simp add: getAllTasks_fallback[OF F1] parse_or_def) (simp add: sm1)
  have same: "sm1\<lparr>items := (items sm1)(storageKeys_TASKS \<mapsto> Serialized (JArr r))\<rparr> = sm1"
    by (simp add: sm1)
  from filter_not_id_idem[OF r] have i: "filter_not_id v r = Inr r" "find_id v r = Inr None" by simp_all
  have "StorageManager_deleteTask None v sm1 = (Inr True, sm1)"
    unfolding StorageManager_deleteTask_def nb1 by (simp add: g1 i same)
  moreover have "StorageManager_getTask None v sm1 = Inr None"
    unfolding StorageManager_getTask_def nb1 by (simp add: g1 i)
  ultimately show ?thesis by simp
qed

lemma getTasks_written:
  "getTasksFromLocalStorage (s\<lparr>localStorage := (localStorage s)\<lparr>TASKS := Some (Serialized v)\<rparr>\<rparr>) = v"
  by (simp add: getTasksFromLocalStorage_def parse_or_def)

lemma deleteTaskFromLocalStorage_twice:
  assumes "deleteTaskFromLocalStorage v s = Inr s1"
  shows "deleteTaskFromLocalStorage v s1 = Inr s1
      \<and> (\<exists>ts. getTasksFromLocalStorage s1 = JArr ts \<and> findIndex_id v ts = Inr None)"
proof -
  from assms obtain ts r where ts: "getTasksFromLocalStorage s = JArr ts"
    and r: "filter_not_id v ts = Inr r"
    and s1: "s1 = s\<lparr>localStorage := (localStorage s)\<lparr>TASKS := Some (Serialized (JArr r))\<rparr>\<rparr>"
    by (auto simp: deleteTaskFromLocalStorage_def split: json.splits sum.splits)
  have g1: "getTasksFromLocalStorage s1 = JArr r" by (simp add: s1 getTasks_written)
  from filter_not_id_idem[OF r] have i: "filter_not_id v r = Inr r" "findIndex_id v r = Inr None" by simp_all
  have "deleteTaskFromLocalStorage v s1 = Inr s1"
    by (simp add: deleteTaskFromLocalStorage_def g1 i) (simp add: s1)
  with g1 i show ?thesis by simp
qed

text \<open>
  A first delete succeeds whenever the key is valid (IndexedDB) or the stored tasks
  are an array without \<open>null\<close> elements (localStorage).
\<close>

lemma filter_not_id_defined:
  "JNull \<notin> set ts \<Longrightarrow> \<exists>r. filter_not_id v ts = Inr r"
proof (induction ts)
  case Nil
  then show ?case by simp
next
  case (Cons t ts)
  then obtain r where r: "filter_not_id v ts = Inr r" by auto
  from Cons.prems have "t \<noteq> JNull" by auto
  then obtain w where "get_prop ''id'' t = Inr w" by (cases t) auto
  with r show ?case by simp
qed

lemma StorageManager_deleteTask_succeeds:
  "isIndexedDBAvailable sm \<Longrightarrow> db sm = Some d \<Longrightarrow> valid_key k \<Longrightarrow>
     \<exists>sm1. StorageManager_deleteTask None (Some k) sm = (Inr True, sm1)"
  "\<not> (isIndexedDBAvailable sm \<and> db sm \<noteq> None) \<Longrightarrow>
     StorageManager_getAllTasks None sm = Inr (JArr ts) \<Longrightarrow> JNull \<notin> set ts \<Longrightarrow>
     \<exists>sm1. StorageManager_deleteTask None v sm = (Inr True, sm1)"
proof -
  show "isIndexedDBAvailable sm \<Longrightarrow> db sm = Some d \<Longrightarrow> valid_key k \<Longrightarrow>
     \<exists>sm1. StorageManager_deleteTask None (Some k) sm = (Inr True, sm1)"
    by (simp add: StorageManager_deleteTask_def)
next
  assume a: "\<not> (isIndexedDBAvailable sm \<and> db sm \<noteq> None)"
    "StorageManager_getAllTasks None sm = Inr (JArr ts)" "JNull \<notin> set ts"
  from filter_not_id_defined[OF a(3)] obtain r where r: "filter_not_id v ts = Inr r" by blast
  have nb: "(case (isIndexedDBAvailable sm, db sm) of (True, Some d) \<Rightarrow> X d | _ \<Rightarrow> Y) = Y" for X :: "idb \<Rightarrow> 'x" and Y
    using a(1) by (cases "isIndexedDBAvailable sm"; cases "db sm") simp_all
  show "\<exists>sm1. StorageManager_deleteTask None v sm = (Inr True, sm1)"
    unfolding StorageManager_deleteTask_def nb by (simp add: a(2) r)
qed

lemma deleteTaskFromLocalStorage_succeeds:
  "getTasksFromLocalStorage s = JArr ts \<Longrightarrow> JNull \<notin> set ts \<Longrightarrow>
     \<exists>s1. deleteTaskFromLocalStorage v s = Inr s1"
  using filter_not_id_defined[of ts v] by (auto simp: deleteTaskFromLocalStorage_def)

text \<open>
  C6. When a first \<open>deleteTask(id)\<close> has succeeded, a second one with the same id
  succeeds too, changes nothing, and no record with that id is present afterwards
  (\<open>getTask\<close> finds none, \<open>findIndex\<close> finds none): in \<open>StorageManager.deleteTask\<close>,
  in IndexedDB and in the localStorage fallback alike, and in
  \<open>DatabaseStorageManager.deleteTaskFromLocalStorage\<close>.
\<close>

theorem deleteTask_idempotent:
  "(StorageManager_deleteTask None v sm = (Inr b, sm1) \<longrightarrow>
      StorageManager_deleteTask None v sm1 = (Inr True, sm1)
      \<and> StorageManager_getTask None v sm1 = Inr None)
   \<and> (deleteTaskFromLocalStorage v s = Inr s1 \<longrightarrow>
      deleteTaskFromLocalStorage v s1 = Inr s1
      \<and> (\<exists>ts. getTasksFromLocalStorage s1 = JArr ts \<and> findIndex_id v ts = Inr None))"
  using StorageManager_delete_twice deleteTaskFromLocalStorage_twice by blast


theorem deleteTask_idempotent_witness:
  "StorageManager_deleteTask None (Some (JStr ''task_7'')) fallback_with_rent = (Inr True, fallback_without_rent)
   \<and> StorageManager_deleteTask None (Some (JStr ''task_7'')) fallback_without_rent = (Inr True, fallback_without_rent)
   \<and> StorageManager_getTask None (Some (JStr ''task_7'')) fallback_without_rent = Inr None
   \<and> StorageManager_deleteTask None (Some (JStr ''task_7'')) indexed_with_rent = (Inr True, indexed_without_rent)
   \<and> StorageManager_deleteTask None (Some (JStr ''task_7'')) indexed_without_rent = (Inr True, indexed_without_rent)
   \<and> StorageManager_getTask None (Some (JStr ''task_7'')) indexed_without_rent = Inr None
   \<and> deleteTaskFromLocalStorage (Some (JStr ''task_7'')) with_rent = Inr without_rent
   \<and> deleteTaskFromLocalStorage (Some (JStr ''task_7'')) without_rent = Inr without_rent
   \<and> getTasksFromLocalStorage without_rent = JArr []"
proof -
  have f1: "StorageManager_deleteTask None (Some (JStr ''task_7'')) fallback_with_rent = (Inr True, fallback_without_rent)"
    by (simp add: StorageManager_deleteTask_def StorageManager_getAllTasks_def fallback_with_rent_def
          fallback_without_rent_def parse_or_def old_rent_def)
  have i1: "StorageManager_deleteTask None (Some (JStr ''task_7'')) indexed_with_rent = (Inr True, indexed_without_rent)"
    by (simp add: StorageManager_deleteTask_def indexed_with_rent_def indexed_without_rent_def)
  have d1: "deleteTaskFromLocalStorage (Some (JStr ''task_7'')) with_rent = Inr without_rent"
    by (simp add: deleteTaskFromLocalStorage_def getTasksFromLocalStorage_def with_rent_def
          without_rent_def parse_or_def old_rent_def empty_storage_def)
  have g: "getTasksFromLocalStorage without_rent = JArr []"
    by (simp add: getTasksFromLocalStorage_def without_rent_def parse_or_def empty_storage_def)
  note fb = deleteTask_idempotent [of "Some (JStr ''task_7'')" fallback_with_rent True
              fallback_without_rent with_rent without_rent]
  note ix = deleteTask_idempotent [of "Some (JStr ''task_7'')" indexed_with_rent True
              indexed_without_rent with_rent without_rent]
  from fb f1 have f2: "StorageManager_deleteTask None (Some (JStr ''task_7'')) fallback_without_rent = (Inr True, fallback_without_rent)"
    and f3: "StorageManager_getTask None (Some (JStr ''task_7'')) fallback_without_rent = Inr None"
    by blast+
  from ix i1 have i2: "StorageManager_deleteTask None (Some (JStr ''task_7'')) indexed_without_rent = (Inr True, indexed_without_rent)"
    and i3: "StorageManager_getTask None (Some (JStr ''task_7'')) indexed_without_rent = Inr None"
    by blast+
  from fb d1 have d2: "deleteTaskFromLocalStorage (Some (JStr ''task_7'')) without_rent = Inr without_rent"
    by blast
  from f1 f2 f3 i1 i2 i3 d1 d2 g show ?thesis
    by - (intro conjI; assumption)
qed

subsection \<open>Reads that fail\<close>

lemma fallback_reads_never_fail:
  assumes "\<not> (isIndexedDBAvailable sm \<and> db sm \<noteq> None)"
  shows "(\<exists>v. StorageManager_getAllTasks fault sm = Inr v)
       \<and> (\<exists>v. StorageManager_getStatistics fault sm = Inr v)
       \<and> (\<exists>v. StorageManager_getTask fault x sm = Inr v)
       \<and> (\<exists>v. StorageManager_getSetting fault key dflt sm = Inr v)"
  using assms
  by (cases "isIndexedDBAvailable sm"; cases "db sm")
     (auto simp: StorageManager_getAllTasks_def StorageManager_getStatistics_def
        StorageManager_getTask_def StorageManager_getSetting_def split: sum.splits json.splits)

lemma fallback_reads_malformed:
  assumes "\<not> (isIndexedDBAvailable sm \<and> db sm \<noteq> None)"
  shows "(items sm storageKeys_TASKS = Some (Garbage g) \<longrightarrow> StorageManager_getAllTasks fault sm = Inr (JArr []))
       \<and> (items sm storageKeys_STATISTICS = Some (Garbage g) \<longrightarrow> StorageManager_getStatistics fault sm = Inr (JArr []))
       \<and> (items sm (storageKeys_SETTINGS @ ''_'' @ key) = Some (Garbage g) \<longrightarrow>
            StorageManager_getSetting fault key dflt sm = Inr dflt)"
  using assms
  by (cases "isIndexedDBAvailable sm"; cases "db sm")
     (auto simp: StorageManager_getAllTasks_def StorageManager_getStatistics_def
        StorageManager_getSetting_def parse_or_def)

lemma getTasksFromLocalStorage_malformed:
  "TASKS (localStorage s) = Some (Garbage g) \<Longrightarrow> getTasksFromLocalStorage s = JArr []"
  by (simp add: getTasksFromLocalStorage_def parse_or_def)

text \<open>
  C4 fails on the code in the IndexedDB branch. When the request of a read fails
  there, the promise returned from inside the \<open>try\<close> block rejects and the caller of
  \<open>getAllTasks\<close>, \<open>getStatistics\<close>, \<open>getTask\<close> or \<open>getSetting\<close> receives the exception,
  although each of them has a \<open>catch\<close> block that returns the empty collection,
  \<open>null\<close> or the default value. (In the localStorage fallback the claim holds, as
  the lemmas above show.)
\<close>

theorem indexed_read_failure_escapes:
  "StorageManager_getAllTasks (Some RequestError) indexed_with_rent = Inl RequestError
   \<and> StorageManager_getStatistics (Some RequestError) indexed_with_rent = Inl RequestError
   \<and> StorageManager_getTask (Some RequestError) (Some (JStr ''task_7'')) indexed_with_rent = Inl RequestError
   \<and> StorageManager_getSetting (Some RequestError) ''theme'' (JStr ''light'') indexed_with_rent = Inl RequestError
   \<and> StorageManager_getAllTasks None indexed_with_rent = Inr (JArr [JObj old_rent])"
  by (simp add: StorageManager_getAllTasks_def StorageManager_getStatistics_def
        StorageManager_getTask_def StorageManager_getSetting_def indexed_with_rent_def)

subsection \<open>Completion statistics\<close>

text \<open>
  C7. Three tasks created within the last seven days: the first pending and due
  today, the second pending and due yesterday (its due date is a non-empty string
  below today's), the third completed and due next week. With the period \<open>week\<close>,
  \<open>getCompletionStats\<close> reports 1 completed, 1 pending and 1 overdue task, 3 in all.
\<close>

theorem week_completion_stats:
  assumes "status t1 = ''pending''" and "dueDate t1 = Some (today env)"
    and "status t2 = ''pending''" and "dueDate t2 = Some yesterday"
    and "yesterday \<noteq> []" and "yesterday < today env"
    and "status t3 = ''completed''" and "dueDate t3 = Some nextWeek" and "today env < nextWeek"
    and "date_parse env (createdAt t1) = Some c1" and "weekAgo env \<le> c1"
    and "date_parse env (createdAt t2) = Some c2" and "weekAgo env \<le> c2"
    and "date_parse env (createdAt t3) = Some c3" and "weekAgo env \<le> c3"
  shows "getCompletionStats env ''week'' [t1, t2, t3] =
           \<lparr>completed = 1, pending = 1, overdue = 1, total = 3\<rparr>"
  using assms by (simp add: getCompletionStats_def getTasksForPeriod_def count_task_def)

theorem week_completion_stats_witness:
  "status due_today = ''pending'' \<and> dueDate due_today = Some (today may10)
   \<and> status due_yesterday = ''pending'' \<and> dueDate due_yesterday = Some ''2024-05-09''
   \<and> (''2024-05-09'' :: string) < today may10
   \<and> status due_next_week = ''completed'' \<and> dueDate due_next_week = Some ''2024-05-17''
   \<and> today may10 < ''2024-05-17''
   \<and> date_parse may10 (createdAt due_today) = Some 1715158800000
   \<and> weekAgo may10 \<le> 1715158800000
   \<and> getCompletionStats may10 ''week'' [due_today, due_yesterday, due_next_week] =
       \<lparr>completed = 1, pending = 1, overdue = 1, total = 3\<rparr>"
proof -
  have a1: "status due_today = ''pending''" by (simp add: due_today_def)
  have a2: "dueDate due_today = Some (today may10)" by (simp add: due_today_def may10_def)
  have a3: "status due_yesterday = ''pending''" by (simp add: due_yesterday_def)
  have a4: "dueDate due_yesterday = Some ''2024-05-09''" by (simp add: due_yesterday_def)
  have a5: "(''2024-05-09'' :: string) \<noteq> []" by simp
  have a6: "(''2024-05-09'' :: string) < today may10" by (simp add: may10_def)
  have a7: "status due_next_week = ''completed''" by (simp add: due_next_week_def)
  have a8: "dueDate due_next_week = Some ''2024-05-17''" by (simp add: due_next_week_def)
  have a9: "today may10 < ''2024-05-17''" by (simp add: may10_def)
  have c1: "date_parse may10 (createdAt due_today) = Some 1715158800000"
    by (simp add: may10_def due_today_def)
  have c2: "date_parse may10 (createdAt due_yesterday) = Some 1715158800000"
    by (simp add: may10_def due_yesterday_def)
  have c3: "date_parse may10 (createdAt due_next_week) = Some 1715158800000"
    by (simp add: may10_def due_next_week_def)
  have w: "weekAgo may10 \<le> 1715158800000" by (simp add: may10_def)
  note th = week_completion_stats [OF a1 a2 a3 a4 a5 a6 a7 a8 a9 c1 w c2 w c3 w]
  from a1 a2 a3 a4 a6 a7 a8 a9 c1 w th show ?thesis
    by - (intro conjI; assumption)
qed

end
